theory Spec2Isabelle
  imports Complex_Main "HOL-Library.Multiset"
begin

section \<open>Conventions of the embedding\<close>

text \<open>
  The Python sources are embedded function by function, each definition keeping the name
  of the method it embeds (without the leading underscore).

  \<^item> Python floats are idealised as exact reals. A NaN cell of a history frame is \<open>None\<close>;
    the cells of the roster are numeric.
  \<^item> Python's \<open>round(x, n)\<close> is \<open>py_round x n\<close>: the nearest multiple of \<open>10^-n\<close>, ties
    to the even one.
  \<^item> The built-in \<open>hash\<close> on strings is salted per interpreter process, so it is a
    parameter \<open>h\<close> of every function that calls it.
  \<^item> A dictionary whose iteration order is observed is an association list in insertion
    order; a dictionary with a fixed set of keys is a record; a key that may be absent is
    an \<open>option\<close> field, and \<open>d.get(k, v)\<close> is \<open>case_option v id\<close> on it.
  \<^item> A dictionary object that the source mutates in place is a value here, and the
    function that mutates it returns the updated value.
  \<^item> An exception is a value of \<open>error\<close>: a function that can raise returns
    \<open>error + 'a\<close>.
  \<^item> Chinese string literals are written in pinyin, one ASCII string per literal, distinct
    literals getting distinct strings; the tables below give the code points.
\<close>

text \<open>
  Sentiment labels: gaochao (U+9AD8 U+6F6E, mania), huoyue (U+6D3B U+8DC3, active),
  wenhe (U+6E29 U+548C, mild), qingdan (U+6E05 U+6DE1, quiet), bingdian (U+51B0 U+70B9, frozen).

  Role keys: longtou (U+9F99 U+5934, leader), zhongjun (U+4E2D U+519B, core),
  buzhang (U+8865 U+6DA8, catch-up), guancha (U+89C2 U+5BDF, watch).

  Sector names of the sector analyzer: keji (U+79D1 U+6280), xinnengyuan (U+65B0 U+80FD U+6E90),
  yiyao (U+533B U+836F), xiaofei (U+6D88 U+8D39), zhouqi (U+5468 U+671F),
  jinrong (U+91D1 U+878D), qita (U+5176 U+4ED6).

  Further sector names of the role identifier: yinhang (U+94F6 U+884C),
  zhengquan (U+8BC1 U+5238), baoxian (U+4FDD U+9669), jijian (U+57FA U+5EFA),
  nengyuan (U+80FD U+6E90), zhongxiaoban (U+4E2D U+5C0F U+677F), zhizaoye (U+5236 U+9020 U+4E1A),
  chuangyeban (U+521B U+4E1A U+677F), kechuangban (U+79D1 U+521B U+677F),
  gaokeji (U+9AD8 U+79D1 U+6280), bandaoti (U+534A U+5BFC U+4F53),
  shengwuyiyao (U+751F U+7269 U+533B U+836F).
\<close>

section \<open>Python helpers\<close>

datatype error = IndexError | ValueError | ZeroDivisionError

definition bind_err :: "error + 'a \<Rightarrow> ('a \<Rightarrow> error + 'b) \<Rightarrow> error + 'b" where
  "bind_err m f = (case m of Inl e \<Rightarrow> Inl e | Inr x \<Rightarrow> f x)"

text \<open>\<open>round(x, n)\<close>\<close>

definition py_round :: "real \<Rightarrow> nat \<Rightarrow> real" where
  "py_round x n =
     (let y = x * 10 ^ n; f = \<lfloor>y\<rfloor>; d = y - of_int f
      in of_int (if d < 1 / 2 then f
                 else if 1 / 2 < d then f + 1
                 else if even f then f else f + 1) / 10 ^ n)"

text \<open>\<open>max(xs, key=k)\<close>: the first element whose key is maximal; \<open>ValueError\<close> on the
  empty list.\<close>

fun max_from :: "('a \<Rightarrow> real) \<Rightarrow> 'a \<Rightarrow> 'a list \<Rightarrow> 'a" where
  "max_from k m [] = m"
| "max_from k m (x # xs) = max_from k (if k m < k x then x else m) xs"

definition py_max :: "('a \<Rightarrow> real) \<Rightarrow> 'a list \<Rightarrow> error + 'a" where
  "py_max k xs = (case xs of [] \<Rightarrow> Inl ValueError | x # ys \<Rightarrow> Inr (max_from k x ys))"

text \<open>\<open>sorted(xs, key=k, reverse=True)\<close> and \<open>xs.sort(key=k, reverse=True)\<close>: descending
  in the key, elements of equal key staying in their original order.\<close>

definition sort_reverse :: "('a \<Rightarrow> real) \<Rightarrow> 'a list \<Rightarrow> 'a list" where
  "sort_reverse k xs = sort_key (\<lambda>x. - k x) xs"

text \<open>\<open>xs[-n:]\<close> and pandas' \<open>tail(n)\<close>\<close>

definition tail :: "nat \<Rightarrow> 'a list \<Rightarrow> 'a list" where
  "tail n xs = drop (length xs - n) xs"

text \<open>\<open>mean\<close> of a non-empty list of numbers\<close>

definition mean :: "real list \<Rightarrow> real" where
  "mean xs = sum_list xs / real (length xs)"

section \<open>Limit-up analyzer (\<open>limit_up_analyzer.py\<close>)\<close>

subsection \<open>Data\<close>

text \<open>One row of the day's roster (\<open>limit_up_df\<close>). The \<open>name\<close> column and a
  \<open>continuous_days\<close> column may be missing from the frame.\<close>

record row =
  r_code :: string
  r_name :: "string option"
  r_close :: real
  r_pct_change :: real
  r_amount :: real
  r_volume :: real
  r_continuous_days :: "nat option"

text \<open>One daily bar of a history frame, oldest first in the frame. The cells of the
  columns \<open>close\<close> and \<open>volume\<close> are numeric. \<open>b_pct_change\<close> is \<open>None\<close> when
  the frame has no \<open>pct_change\<close> column or the cell is NaN; \<open>b_preclose\<close> is the cell
  of the column named \<open>preclose\<close>, \<open>None\<close> for NaN, and \<open>preclose_column\<close> says
  whether the frame has that column.\<close>

record bar =
  b_close :: real
  b_volume :: real
  b_pct_change :: "real option"
  b_preclose :: "real option"

record history =
  preclose_column :: bool
  bars :: "bar list"

text \<open>The \<open>features\<close> dictionary of a stock: empty, or filled by the analyzer.\<close>

record features =
  price_position :: "real option"
  volume_ratio :: "real option"
  is_breakout :: "bool option"
  trend_strength :: "real option"

definition no_features :: features where
  "no_features = \<lparr>price_position = None, volume_ratio = None, is_breakout = None,
     trend_strength = None\<rparr>"

text \<open>The per-stock analysis dictionary. \<open>composite_score\<close> is the key U+7EFC U+5408 U+8BC4 U+5206
  and \<open>sector\<close> the key U+6240 U+5C5E U+677F U+5757, both written by the role identifier.
  The \<open>technical_indicators\<close> entry is left out: no later stage reads it.\<close>

record stock =
  code :: string
  name :: string
  close :: real
  pct_change :: real
  amount :: real
  volume :: real
  features :: features
  continuous_days :: "nat option"
  total_increase :: "real option"
  daily_increases :: "real list option"
  continuous_strength :: "real option"
  composite_score :: "real option"
  sector :: "string option"

text \<open>The \<open>summary\<close> dictionary; the numeric aggregates of the frame (sums, means,
  extremes) are left out: no later stage reads them.\<close>

record summary =
  total_count :: int
  market_sentiment :: string
  success_rate :: string

record analysis_result =
  summary :: summary
  stocks :: "stock list"
  patterns :: "stock list"

subsection \<open>Features\<close>

definition calculate_price_position :: "history \<Rightarrow> real" where
  "calculate_price_position df =
     (if length (bars df) < 20 then 50
      else let closes = map b_close (tail 20 (bars df));
               current = last closes;
               lowest = Min (set closes);
               highest = Max (set closes)
           in if highest = lowest then 50
              else py_round ((current - lowest) / (highest - lowest) * 100) 2)"

definition calculate_volume_ratio :: "history \<Rightarrow> real" where
  "calculate_volume_ratio df =
     (if length (bars df) < 6 then 1
      else let volumes = map b_volume (tail 6 (bars df));
               today_volume = last volumes;
               avg_volume = mean (butlast volumes)
           in py_round (if avg_volume > 0 then today_volume / avg_volume else 1) 2)"

definition check_breakout :: "history \<Rightarrow> bool" where
  "check_breakout df =
     (if length (bars df) < 10 then False
      else let closes = map b_close (tail 10 (bars df));
               current = last closes;
               prev_max = Max (set (butlast closes))
           in current > prev_max * 1.03)"

definition calculate_trend_strength :: "history \<Rightarrow> real" where
  "calculate_trend_strength df =
     (if length (bars df) < 5 then 0
      else let closes = map b_close (tail 5 (bars df));
               first_price = hd closes;
               last_price = last closes
           in if first_price > 0 then py_round ((last_price / first_price - 1) * 100) 2
              else 0)"

subsection \<open>Streaks\<close>

text \<open>The percent change of one day inside the loop of \<open>_check_limit_up_days\<close>;
  \<open>None\<close> is the \<open>break\<close> of the last branch.\<close>

definition day_pct_change :: "bool \<Rightarrow> bar \<Rightarrow> real option" where
  "day_pct_change has_preclose b =
     (case b_pct_change b of
        Some p \<Rightarrow> Some p
      | None \<Rightarrow>
          if has_preclose
          then Some (case b_preclose b of
                       Some preclose_price \<Rightarrow>
                         if preclose_price > 0
                         then (b_close b / preclose_price - 1) * 100 else 0
                     | None \<Rightarrow> 0)
          else None)"

text \<open>The loop of \<open>_check_limit_up_days\<close> over the days \<open>df.iloc[-1]\<close>,
  \<open>df.iloc[-2]\<close>, ..., with the running \<open>continuous_days\<close>.\<close>

fun limit_up_walk :: "real \<Rightarrow> bool \<Rightarrow> bar list \<Rightarrow> nat \<Rightarrow> nat" where
  "limit_up_walk limit_threshold has_preclose [] n = n"
| "limit_up_walk limit_threshold has_preclose (b # bs) n =
     (case day_pct_change has_preclose b of
        None \<Rightarrow> n
      | Some p \<Rightarrow>
          if p \<ge> limit_threshold
          then limit_up_walk limit_threshold has_preclose bs (n + 1)
          else n)"

definition check_limit_up_days :: "real \<Rightarrow> history \<Rightarrow> nat" where
  "check_limit_up_days limit_threshold df =
     (if length (bars df) < 2 then 0
      else limit_up_walk limit_threshold (preclose_column df)
             (take (min 10 (length (bars df) - 1)) (rev (bars df))) 0)"

definition calculate_total_increase :: "history \<Rightarrow> nat \<Rightarrow> real" where
  "calculate_total_increase df days =
     (if length (bars df) < days + 1 \<or> days = 0 then 0
      else let start_price = b_close (bars df ! (length (bars df) - (days + 1)));
               end_price = b_close (last (bars df))
           in if start_price > 0 then py_round ((end_price / start_price - 1) * 100) 2
              else 0)"

definition get_daily_increases :: "history \<Rightarrow> nat \<Rightarrow> real list" where
  "get_daily_increases df days =
     (if length (bars df) < days + 1 \<or> days = 0 then []
      else rev (map (\<lambda>i. let current_close = b_close (bars df ! (length (bars df) - (i + 1)));
                             prev_close = b_close (bars df ! (length (bars df) - (i + 2)))
                         in if prev_close > 0
                            then py_round ((current_close / prev_close - 1) * 100) 2
                            else 0)
                [0..<days]))"

definition calculate_continuous_strength :: "stock \<Rightarrow> history \<Rightarrow> real" where
  "calculate_continuous_strength s hist_df =
     (let days = case_option 0 id (continuous_days s);
          strength1 = real (min (days * 20) 100) * 0.4;
          volumes = map b_volume (tail 3 (bars hist_df));
          strength2 =
            (if length (bars hist_df) \<ge> 3 \<and> mean volumes > 0
             then (let ratio = last volumes / mean volumes
                   in if ratio < 0.8 then strength1 + 30
                      else if ratio < 1.2 then strength1 + 20
                      else strength1 + 10)
             else strength1);
          strength3 =
            (if amount s > 1000000000 then strength2 + 30
             else if amount s > 500000000 then strength2 + 20
             else if amount s > 100000000 then strength2 + 10
             else strength2)
      in py_round (min strength3 100) 1)"

subsection \<open>Labels\<close>

definition calculate_market_sentiment :: "int \<Rightarrow> string" where
  "calculate_market_sentiment limit_up_count =
     (if limit_up_count > 100 then ''gaochao''
      else if limit_up_count > 60 then ''huoyue''
      else if limit_up_count > 30 then ''wenhe''
      else if limit_up_count > 10 then ''qingdan''
      else ''bingdian'')"

definition estimate_success_rate :: "int \<Rightarrow> string" where
  "estimate_success_rate limit_up_count =
     (if limit_up_count = 0 then ''0%''
      else if limit_up_count > 80 then ''85%''
      else if limit_up_count > 50 then ''75%''
      else if limit_up_count > 30 then ''65%''
      else ''55%'')"

subsection \<open>The analysis\<close>

definition analyze_single_stock :: "real \<Rightarrow> (string \<rightharpoonup> history) \<Rightarrow> row \<Rightarrow> stock" where
  "analyze_single_stock limit_threshold historical_data stock_row =
     (let analysis = \<lparr>code = r_code stock_row,
                       name = case_option (r_code stock_row) id (r_name stock_row),
                       close = r_close stock_row,
                       pct_change = r_pct_change stock_row,
                       amount = r_amount stock_row,
                       volume = r_volume stock_row,
                       features = no_features,
                       continuous_days = None,
                       total_increase = None,
                       daily_increases = None,
                       continuous_strength = None,
                       composite_score = None,
                       sector = None\<rparr>
      in case historical_data (r_code stock_row) of
           None \<Rightarrow> analysis
         | Some hist_df \<Rightarrow>
             if length (bars hist_df) \<ge> 5
             then (let days = check_limit_up_days limit_threshold hist_df
                   in analysis
                        \<lparr>features :=
                           \<lparr>price_position = Some (calculate_price_position hist_df),
                            volume_ratio = Some (calculate_volume_ratio hist_df),
                            is_breakout = Some (check_breakout hist_df),
                            trend_strength = Some (calculate_trend_strength hist_df)\<rparr>,
                         continuous_days := Some days,
                         total_increase := Some (calculate_total_increase hist_df days)\<rparr>)
             else analysis)"

text \<open>The body of the loop of \<open>_find_continuous_limit_up\<close> on one stock: whether the
  stock is appended to \<open>continuous_stocks\<close>, and the stock after the loop has written
  its streak entries.\<close>

definition is_continuous :: "(string \<rightharpoonup> history) \<Rightarrow> stock \<Rightarrow> bool" where
  "is_continuous historical_data s =
     (case historical_data (code s) of
        None \<Rightarrow> False
      | Some hist_df \<Rightarrow> case_option 0 id (continuous_days s) \<ge> 2)"

definition mark_continuous :: "(string \<rightharpoonup> history) \<Rightarrow> stock \<Rightarrow> stock" where
  "mark_continuous historical_data s =
     (case historical_data (code s) of
        None \<Rightarrow> s
      | Some hist_df \<Rightarrow>
          let days = case_option 0 id (continuous_days s)
          in if days \<ge> 2
             then (let s1 = s\<lparr>continuous_days := Some days,
                              total_increase := Some (calculate_total_increase hist_df days),
                              daily_increases := Some (get_daily_increases hist_df days)\<rparr>
                   in s1\<lparr>continuous_strength :=
                           Some (calculate_continuous_strength s1 hist_df)\<rparr>)
             else s)"

text \<open>\<open>_find_continuous_limit_up\<close> returns the sorted streak stocks; the first component
  is the list \<open>stocks_analysis\<close> after the call, whose dictionaries the loop has
  updated.\<close>

definition find_continuous_limit_up ::
  "stock list \<Rightarrow> (string \<rightharpoonup> history) \<Rightarrow> stock list \<times> stock list" where
  "find_continuous_limit_up stocks_analysis historical_data =
     (let marked = map (mark_continuous historical_data) stocks_analysis;
          continuous_stocks = filter (is_continuous historical_data) marked
      in (marked,
          sort_reverse (\<lambda>x. real (case_option 0 id (continuous_days x))) continuous_stocks))"

definition empty_analysis_result :: analysis_result where
  "empty_analysis_result =
     \<lparr>summary = \<lparr>total_count = 0, market_sentiment = ''bingdian'', success_rate = ''0%''\<rparr>,
      stocks = [], patterns = []\<rparr>"

definition analyze_limit_up ::
  "real \<Rightarrow> row list \<Rightarrow> (string \<rightharpoonup> history) \<Rightarrow> analysis_result" where
  "analyze_limit_up limit_threshold limit_up_df historical_data =
     (if limit_up_df = [] then empty_analysis_result
      else let analysed = map (analyze_single_stock limit_threshold historical_data) limit_up_df;
               (marked, continuous_stocks) = find_continuous_limit_up analysed historical_data;
               cnt = int (length limit_up_df)
           in \<lparr>summary = \<lparr>total_count = cnt,
                           market_sentiment = calculate_market_sentiment cnt,
                           success_rate = estimate_success_rate cnt\<rparr>,
               stocks = marked, patterns = continuous_stocks\<rparr>)"

section \<open>Sector analyzer (\<open>sector_analyzer.py\<close>)\<close>

text \<open>
  Verdicts of \<open>_judge_sector_persistence\<close>:
  ''qiangshi, youwang chixu'' (U+5F3A U+52BF U+FF0C U+6709 U+671B U+6301 U+7EED; strong, likely to persist),
  ''zhongdeng, keneng fenhua'' (U+4E2D U+7B49 U+FF0C U+53EF U+80FD U+5206 U+5316; moderate, may diverge),
  ''yiban, jinshen canyu'' (U+4E00 U+822C U+FF0C U+8C28 U+614E U+53C2 U+4E0E; weak, caution),
  ''ruoshi, keneng yiriyou'' (U+5F31 U+52BF U+FF0C U+53EF U+80FD U+4E00 U+65E5 U+6E38; likely a one-day move).

  Structure ratings: ''wanzheng (duo tidui)'', ''yiban (shuang tidui)'', ''danyi (dan tidui)''.
  Core-stock roles: ''gaodu longtou'', ''gensuilong'', ''qushi zhongjun'', ''buzhang/genfeng''.
\<close>

subsection \<open>Data\<close>

record core_stock =
  cs_code :: string
  cs_name :: string
  cs_role :: string
  cs_continuous_days :: nat
  cs_amount :: real

text \<open>The analysis dictionary of one sector: \<open>sector_name\<close> (U+677F U+5757 U+540D U+79F0),
  \<open>limit_up_count\<close> (U+6DA8 U+505C U+6570 U+91CF), \<open>strength_score\<close> (U+5F3A U+5EA6 U+5F97 U+5206),
  \<open>structure_rating\<close> (U+68AF U+961F U+5B8C U+6574 U+6027), \<open>capital_inflow\<close> (U+8D44 U+91D1 U+6D41 U+5165),
  \<open>persistence\<close> (U+6301 U+7EED U+6027 U+5224 U+65AD), \<open>core_stocks\<close> (U+6838 U+5FC3 U+80A1 U+7968).\<close>

record sector_analysis =
  sector_name :: string
  limit_up_count :: nat
  strength_score :: real
  structure_rating :: string
  capital_inflow :: real
  persistence :: string
  core_stocks :: "core_stock list"

subsection \<open>Sector assignment\<close>

text \<open>The keys of the dictionary \<open>sectors\<close> of \<open>_group_stocks_by_sector\<close>, in insertion
  order.\<close>

definition sector_catalogue :: "string list" where
  "sector_catalogue =
     [''keji'', ''xinnengyuan'', ''yiyao'', ''xiaofei'', ''zhouqi'', ''jinrong'', ''qita'']"

text \<open>\<open>_assign_stock_sector(code, sectors)\<close>, on the key list of \<open>sectors\<close>. Python's
  \<open>%\<close> with a positive modulus is \<open>mod\<close> on \<open>int\<close>.\<close>

definition assign_stock_sector :: "(string \<Rightarrow> int) \<Rightarrow> string \<Rightarrow> string list \<Rightarrow> error + string" where
  "assign_stock_sector h c sector_keys =
     (if sector_keys = [] then Inl ZeroDivisionError
      else Inr (sector_keys ! nat (h c mod int (length sector_keys))))"

text \<open>\<open>groups[k].append(v)\<close> on an insertion-ordered dictionary of lists, creating the
  entry at the end when the key is new.\<close>

fun group_append :: "'k \<Rightarrow> 'v \<Rightarrow> ('k \<times> 'v list) list \<Rightarrow> ('k \<times> 'v list) list" where
  "group_append k v [] = [(k, [v])]"
| "group_append k v ((k', vs) # g) =
     (if k' = k then (k', vs @ [v]) # g else (k', vs) # group_append k v g)"

fun group_stocks_loop ::
  "(string \<Rightarrow> int) \<Rightarrow> row list \<Rightarrow> (string \<times> row list) list \<Rightarrow> error + (string \<times> row list) list" where
  "group_stocks_loop h [] sector_stocks = Inr sector_stocks"
| "group_stocks_loop h (r # rs) sector_stocks =
     bind_err (assign_stock_sector h (r_code r) sector_catalogue)
       (\<lambda>sector. group_stocks_loop h rs (group_append sector r sector_stocks))"

definition group_stocks_by_sector ::
  "(string \<Rightarrow> int) \<Rightarrow> row list \<Rightarrow> error + (string \<times> row list) list" where
  "group_stocks_by_sector h df = group_stocks_loop h df []"

subsection \<open>One sector\<close>

definition row_days :: "row \<Rightarrow> nat" where
  "row_days s = case_option 0 id (r_continuous_days s)"

definition calculate_sector_strength :: "row list \<Rightarrow> real" where
  "calculate_sector_strength sector_rows =
     (if sector_rows = [] then 0
      else let count_score = min (length sector_rows * 10) 50;
               max_continuous = Max (set (map row_days sector_rows));
               continuous_score = min (max_continuous * 15) 30;
               total_amount = sum_list (map r_amount sector_rows);
               amount_score =
                 (if total_amount > 5000000000 then 20
                  else if total_amount > 1000000000 then 15
                  else if total_amount > 500000000 then 10
                  else (5::nat))
           in py_round (real (count_score + continuous_score + amount_score)) 2)"

definition check_sector_structure :: "row list \<Rightarrow> string" where
  "check_sector_structure sector_rows =
     (let unique_heights = set (map row_days sector_rows)
      in if card unique_heights \<ge> 3 then ''wanzheng (duo tidui)''
         else if card unique_heights = 2 then ''yiban (shuang tidui)''
         else ''danyi (dan tidui)'')"

text \<open>\<open>SectorAnalyzer._judge_sector_persistence(stocks, strength_score)\<close>; the list of
  stocks is not read.\<close>

definition judge_sector_persistence :: "row list \<Rightarrow> real \<Rightarrow> string" where
  "judge_sector_persistence sector_rows score =
     (if score \<ge> 70 then ''qiangshi, youwang chixu''
      else if score \<ge> 50 then ''zhongdeng, keneng fenhua''
      else if score \<ge> 30 then ''yiban, jinshen canyu''
      else ''ruoshi, keneng yiriyou'')"

text \<open>\<open>_assign_stock_role(stock, all_stocks)\<close>; the only caller passes a list that
  holds \<open>stock\<close>, so \<open>max(amounts)\<close> is taken of a non-empty list.\<close>

definition assign_stock_role :: "row \<Rightarrow> row list \<Rightarrow> string" where
  "assign_stock_role s all_stocks =
     (if row_days s \<ge> 3 then ''gaodu longtou''
      else if row_days s = 2 then ''gensuilong''
      else if r_amount s \<ge> Max (set (map r_amount all_stocks)) * 0.7 then ''qushi zhongjun''
      else ''buzhang/genfeng'')"

definition identify_core_stocks :: "row list \<Rightarrow> core_stock list" where
  "identify_core_stocks sector_rows =
     (if sector_rows = [] then []
      else let sorted_stocks = sort_reverse (\<lambda>x. real (row_days x)) sector_rows
           in map (\<lambda>s. \<lparr>cs_code = r_code s,
                         cs_name = case_option (r_code s) id (r_name s),
                         cs_role = assign_stock_role s sorted_stocks,
                         cs_continuous_days = row_days s,
                         cs_amount = r_amount s\<rparr>)
                  (take 3 sorted_stocks))"

definition analyze_single_sector :: "string \<Rightarrow> row list \<Rightarrow> sector_analysis" where
  "analyze_single_sector sector_key sector_rows =
     (let score = calculate_sector_strength sector_rows
      in \<lparr>sector_name = sector_key,
          limit_up_count = length sector_rows,
          strength_score = score,
          structure_rating = check_sector_structure sector_rows,
          capital_inflow = sum_list (map r_amount sector_rows),
          persistence = judge_sector_persistence sector_rows score,
          core_stocks = identify_core_stocks sector_rows\<rparr>)"

subsection \<open>All sectors\<close>

text \<open>\<open>analyze_sectors(limit_up_df, historical_data)\<close>; the histories are passed on but
  never read, so they are no parameter here.\<close>

definition analyze_sectors ::
  "(string \<Rightarrow> int) \<Rightarrow> row list \<Rightarrow> error + (string \<times> sector_analysis) list" where
  "analyze_sectors h limit_up_df =
     (if limit_up_df = [] then Inr []
      else bind_err (group_stocks_by_sector h limit_up_df)
             (\<lambda>sector_stocks.
                Inr (sort_reverse (\<lambda>x. strength_score (snd x))
                       (map (\<lambda>(sector_key, sector_rows).
                               (sector_key, analyze_single_sector sector_key sector_rows))
                          (filter (\<lambda>(sector_key, sector_rows). length sector_rows \<ge> 2)
                             sector_stocks)))))"

section \<open>Role identifier (\<open>dragon_head_identifier.py\<close>)\<close>

subsection \<open>Configuration and data\<close>

text \<open>\<open>config['analysis']\<close>: \<open>limit_threshold\<close> (U+6DA8 U+505C U+9608 U+503C),
  \<open>sector_strength_threshold\<close> (U+677F U+5757 U+5F3A U+5EA6 U+9608 U+503C) and the score weights
  (U+9F99 U+5934 U+8BC4 U+5206 U+6743 U+91CD): \<open>w_streak\<close> (U+8FDE U+677F U+9AD8 U+5EA6),
  \<open>w_limit_time\<close> (U+6DA8 U+505C U+65F6 U+95F4), \<open>w_seal_amount\<close> (U+5C01 U+5355 U+91D1 U+989D),
  \<open>w_float_cap\<close> (U+6D41 U+901A U+5E02 U+503C).\<close>

record weights =
  w_streak :: real
  w_limit_time :: real
  w_seal_amount :: real
  w_float_cap :: real

record config =
  limit_threshold :: real
  sector_strength_threshold :: int
  score_weights :: weights

text \<open>The result of \<open>identify_roles\<close>: the four lists under the keys longtou, zhongjun,
  buzhang and guancha.\<close>

record roles =
  longtou :: "stock list"
  zhongjun :: "stock list"
  buzhang :: "stock list"
  guancha :: "stock list"

text \<open>The result of \<open>_analyze_sector_roles\<close>: a dictionary with at most the keys
  longtou, zhongjun and buzhang.\<close>

record sector_roles =
  sr_longtou :: "stock option"
  sr_zhongjun :: "stock option"
  sr_buzhang :: "stock option"

definition empty_roles :: roles where
  "empty_roles = \<lparr>longtou = [], zhongjun = [], buzhang = [], guancha = []\<rparr>"

subsection \<open>Sector of a stock\<close>

text \<open>The dictionary \<open>sectors\<close> of \<open>_get_stock_sector\<close>.\<close>

definition sectors_by_prefix :: "(char \<times> string list) list" where
  "sectors_by_prefix =
     [(CHR ''6'', [''yinhang'', ''zhengquan'', ''baoxian'', ''jijian'', ''nengyuan'']),
      (CHR ''0'', [''zhongxiaoban'', ''zhizaoye'', ''keji'']),
      (CHR ''3'', [''chuangyeban'', ''keji'', ''yiyao'', ''xinnengyuan'']),
      (CHR ''4'', [''kechuangban'', ''gaokeji'', ''bandaoti'', ''shengwuyiyao''])]"

text \<open>\<open>_get_stock_sector(code)\<close>; \<open>code[0]\<close> raises on the empty string.\<close>

definition get_stock_sector :: "(string \<Rightarrow> int) \<Rightarrow> string \<Rightarrow> error + string" where
  "get_stock_sector h c =
     (case c of
        [] \<Rightarrow> Inl IndexError
      | c0 # _ \<Rightarrow>
          (case map_of sectors_by_prefix c0 of
             Some sector_list \<Rightarrow>
               Inr (sector_list ! nat (h c mod int (length sector_list)))
           | None \<Rightarrow> Inr ''qita''))"

text \<open>The search of \<open>_get_stock_sector_from_data\<close> through the core stocks of every
  sector, in the order of the dictionary.\<close>

fun find_sector_in_data :: "string \<Rightarrow> (string \<times> sector_analysis) list \<Rightarrow> string option" where
  "find_sector_in_data c [] = None"
| "find_sector_in_data c ((sector_key, sector_info) # rest) =
     (if c \<in> set (map cs_code (core_stocks sector_info)) then Some sector_key
      else find_sector_in_data c rest)"

definition get_stock_sector_from_data ::
  "(string \<Rightarrow> int) \<Rightarrow> string \<Rightarrow> (string \<times> sector_analysis) list \<Rightarrow> error + string" where
  "get_stock_sector_from_data h c sector_data =
     (case find_sector_in_data c sector_data of
        Some sector_key \<Rightarrow> Inr sector_key
      | None \<Rightarrow> get_stock_sector h c)"

fun group_by_sector_loop ::
  "(string \<Rightarrow> int) \<Rightarrow> (string \<times> sector_analysis) list \<Rightarrow> stock list
     \<Rightarrow> (string \<times> stock list) list \<Rightarrow> error + (string \<times> stock list) list" where
  "group_by_sector_loop h sector_data [] sector_groups = Inr sector_groups"
| "group_by_sector_loop h sector_data (s # ss) sector_groups =
     bind_err (get_stock_sector_from_data h (code s) sector_data)
       (\<lambda>sector_key.
          group_by_sector_loop h sector_data ss (group_append sector_key s sector_groups))"

definition group_by_sector ::
  "(string \<Rightarrow> int) \<Rightarrow> stock list \<Rightarrow> (string \<times> sector_analysis) list
     \<Rightarrow> error + (string \<times> stock list) list" where
  "group_by_sector h stock_list sector_data = group_by_sector_loop h sector_data stock_list []"

subsection \<open>Composite score\<close>

definition days_of :: "stock \<Rightarrow> nat" where
  "days_of s = case_option 0 id (continuous_days s)"

definition score_of :: "stock \<Rightarrow> real" where
  "score_of s = case_option 0 id (composite_score s)"

definition amount_score :: "stock \<Rightarrow> real" where
  "amount_score s =
     (if amount s > 1000000000 then 100
      else if amount s > 500000000 then 80
      else if amount s > 200000000 then 65
      else if amount s > 50000000 then 50
      else 30)"

definition technical_score :: "stock \<Rightarrow> real" where
  "technical_score s =
     (let f = features s;
          t0 = (50::real);
          t1 = (if case_option False id (is_breakout f) then t0 + 20 else t0);
          t2 = (if case_option 50 id (price_position f) > 70 then t1 + 15
                else if case_option 50 id (price_position f) < 30 then t1 + 10
                else t1);
          t3 = (if case_option 0 id (trend_strength f) > 5 then t2 + 10 else t2);
          t4 = (if case_option 1 id (volume_ratio f) > 2 then t3 + 5 else t3)
      in min t4 100)"

definition calculate_dragon_score :: "weights \<Rightarrow> stock \<Rightarrow> real" where
  "calculate_dragon_score w s =
     (let continuous_score = real (min (days_of s * 25) 100);
          limit_time_score = 60
      in py_round (0 + continuous_score * w_streak w
                     + limit_time_score * w_limit_time w
                     + amount_score s * w_seal_amount w
                     + technical_score s * w_float_cap w) 2)"

subsection \<open>Roles inside one sector\<close>

text \<open>The three selection blocks of \<open>_analyze_sector_roles\<close>, each on the scored and
  sorted list.\<close>

definition select_longtou :: "stock list \<Rightarrow> error + stock option" where
  "select_longtou scored_stocks =
     (if length scored_stocks > 0
      then (let dragon_candidates = filter (\<lambda>s. days_of s \<ge> 2) scored_stocks
            in if dragon_candidates \<noteq> []
               then bind_err (py_max score_of dragon_candidates) (\<lambda>m. Inr (Some m))
               else (case scored_stocks of [] \<Rightarrow> Inl IndexError | s0 # _ \<Rightarrow> Inr (Some s0)))
      else Inr None)"

definition select_zhongjun :: "stock list \<Rightarrow> stock option \<Rightarrow> error + stock option" where
  "select_zhongjun scored_stocks lt =
     (if length scored_stocks > 1
      then bind_err (py_max amount (take (min 5 (length scored_stocks)) scored_stocks))
             (\<lambda>middle_army.
                case lt of
                  None \<Rightarrow> Inr (Some middle_army)
                | Some dragon \<Rightarrow>
                    if code dragon = code middle_army
                    then (if length scored_stocks > 2
                          then (let middle_army_candidates =
                                      filter (\<lambda>s. code s \<noteq> code dragon)
                                        (take 2 (drop 1 scored_stocks))
                                in if middle_army_candidates \<noteq> []
                                   then bind_err (py_max amount middle_army_candidates)
                                          (\<lambda>m. Inr (Some m))
                                   else Inr (Some middle_army))
                          else Inr (Some middle_army))
                    else Inr (Some middle_army))
      else Inr None)"

definition select_buzhang ::
  "stock list \<Rightarrow> stock option \<Rightarrow> stock option \<Rightarrow> error + stock option" where
  "select_buzhang scored_stocks lt zj =
     (if length scored_stocks > 2
      then (let low_candidates =
                  filter (\<lambda>s. days_of s \<le> 1
                              \<and> case_option 50 id (price_position (features s)) < 50)
                    scored_stocks;
                fill_up_candidates =
                  (if low_candidates = []
                   then filter (\<lambda>s. case_option False id (is_breakout (features s)))
                          (tail 3 scored_stocks)
                   else low_candidates)
            in if fill_up_candidates \<noteq> []
               then bind_err
                      (py_max (\<lambda>x. case_option 0 id (trend_strength (features x)))
                         fill_up_candidates)
                      (\<lambda>fill_up.
                         case (lt, zj) of
                           (Some dragon, Some middle_army) \<Rightarrow>
                             if code fill_up \<noteq> code dragon \<and> code fill_up \<noteq> code middle_army
                             then Inr (Some fill_up) else Inr None
                         | _ \<Rightarrow> Inr None)
               else Inr None)
      else Inr None)"

text \<open>The list \<open>scored_stocks\<close> of \<open>_analyze_sector_roles\<close>: every stock gets its
  score written, then the list is sorted by score, highest first.\<close>

definition score_stocks :: "weights \<Rightarrow> stock list \<Rightarrow> stock list" where
  "score_stocks w sector_stocks =
     sort_reverse score_of
       (map (\<lambda>s. s\<lparr>composite_score := Some (calculate_dragon_score w s)\<rparr>) sector_stocks)"

text \<open>\<open>_analyze_sector_roles(sector, stocks)\<close>\<close>

definition analyze_sector_roles :: "weights \<Rightarrow> stock list \<Rightarrow> error + sector_roles" where
  "analyze_sector_roles w sector_stocks =
     (if length sector_stocks < 2
      then Inr \<lparr>sr_longtou = None, sr_zhongjun = None, sr_buzhang = None\<rparr>
      else let scored_stocks = score_stocks w sector_stocks
           in bind_err (select_longtou scored_stocks) (\<lambda>lt.
              bind_err (select_zhongjun scored_stocks lt) (\<lambda>zj.
              bind_err (select_buzhang scored_stocks lt zj) (\<lambda>bz.
              Inr \<lparr>sr_longtou = lt, sr_zhongjun = zj, sr_buzhang = bz\<rparr>))))"

subsection \<open>All sectors\<close>

text \<open>The inner loop over \<open>sector_roles.items()\<close>: each stock found gets its sector
  written and is appended to the list of its role; \<open>opt_list\<close> is the entry of a key as
  a list, empty when the key is absent.\<close>

definition tag_sector :: "string \<Rightarrow> stock \<Rightarrow> stock" where
  "tag_sector sector_key s = s\<lparr>sector := Some sector_key\<rparr>"

definition opt_list :: "'a option \<Rightarrow> 'a list" where
  "opt_list x = (case x of None \<Rightarrow> [] | Some s \<Rightarrow> [s])"

definition add_sector_roles :: "string \<Rightarrow> sector_roles \<Rightarrow> roles \<Rightarrow> roles" where
  "add_sector_roles sector_key sr rs =
     rs\<lparr>longtou := longtou rs @ map (tag_sector sector_key) (opt_list (sr_longtou sr)),
        zhongjun := zhongjun rs @ map (tag_sector sector_key) (opt_list (sr_zhongjun sr)),
        buzhang := buzhang rs @ map (tag_sector sector_key) (opt_list (sr_buzhang sr))\<rparr>"

text \<open>The loop of \<open>identify_roles\<close> over \<open>sector_groups.items()\<close>.\<close>

fun identify_loop :: "config \<Rightarrow> (string \<times> stock list) list \<Rightarrow> roles \<Rightarrow> error + roles" where
  "identify_loop cfg [] rs = Inr rs"
| "identify_loop cfg ((sector_key, sector_stocks) # groups) rs =
     (if int (length sector_stocks) \<ge> sector_strength_threshold cfg
      then bind_err (analyze_sector_roles (score_weights cfg) sector_stocks)
             (\<lambda>sr. identify_loop cfg groups (add_sector_roles sector_key sr rs))
      else identify_loop cfg groups
             (rs\<lparr>guancha := guancha rs @ map (tag_sector sector_key) sector_stocks\<rparr>))"

definition sort_role :: "stock list \<Rightarrow> stock list" where
  "sort_role xs = (if xs \<noteq> [] then sort_reverse score_of xs else xs)"

definition identify_roles ::
  "config \<Rightarrow> (string \<Rightarrow> int) \<Rightarrow> stock list \<Rightarrow> (string \<times> sector_analysis) list \<Rightarrow> error + roles" where
  "identify_roles cfg h limit_up_stocks sector_data =
     (if limit_up_stocks = [] then Inr empty_roles
      else bind_err (group_by_sector h limit_up_stocks sector_data) (\<lambda>sector_groups.
           bind_err (identify_loop cfg sector_groups empty_roles) (\<lambda>rs.
           Inr (rs\<lparr>longtou := sort_role (longtou rs),
                   zhongjun := sort_role (zhongjun rs),
                   buzhang := sort_role (buzhang rs)\<rparr>))))"

section \<open>Strategy generator (\<open>strategy_generator.py\<close>)\<close>

text \<open>
  The generator is embedded for a run without AI commentary (\<open>ai_analysis\<close> absent or
  empty), the case in which \<open>_add_ai_info_to_strategy\<close> returns at once and no theme gets
  an AI field.

  Verdicts of \<open>StrategyGenerator._judge_sector_persistence\<close>:
  ''zhuxian mingque, chixuxing jiaoqiang''
  (U+4E3B U+7EBF U+660E U+786E U+FF0C U+6301 U+7EED U+6027 U+8F83 U+5F3A; clear main line, fairly persistent),
  ''you yiding chixuxing, xu guancha''
  (U+6709 U+4E00 U+5B9A U+6301 U+7EED U+6027 U+FF0C U+9700 U+89C2 U+5BDF; some persistence, to be watched),
  ''yiriyou kenengxing da, jinshen canyu''
  (U+4E00 U+65E5 U+6E38 U+53EF U+80FD U+6027 U+5927 U+FF0C U+8C28 U+614E U+53C2 U+4E0E; probably a one-day move).

  Profit effect: hao (U+597D), yiban (U+4E00 U+822C), cha (U+5DEE). A rating of n stars
  (U+2605) is a string of n asterisks. The canned sentences of the strategies, warnings and
  suggestions are transliterated in the same way. A price formatted with \<open>:.2f\<close> is the
  number it denotes, \<open>py_round x 2\<close>.
\<close>

subsection \<open>Data\<close>

text \<open>The market overview (U+5E02 U+573A U+6982 U+51B5): \<open>ms_total_count\<close> (U+6DA8 U+505C U+5BB6 U+6570),
  \<open>ms_max_streak\<close> (U+8FDE U+677F U+9AD8 U+5EA6), \<open>ms_success_rate\<close> (U+5C01 U+677F U+6210 U+529F U+7387),
  \<open>ms_sentiment\<close> (U+5E02 U+573A U+60C5 U+7EEA), \<open>ms_profit_effect\<close> (U+8D5A U+94B1 U+6548 U+5E94).\<close>

record market_summary =
  ms_total_count :: int
  ms_max_streak :: nat
  ms_success_rate :: string
  ms_sentiment :: string
  ms_profit_effect :: string

record sector_stat =
  st_count :: nat
  st_roles :: "string list"
  st_stock_codes :: "string list"

record theme =
  th_name :: string
  th_count :: nat
  th_leader_count :: nat
  th_rating :: string
  th_persistence :: string

record strategy_item =
  it_code :: string
  it_name :: string
  it_role :: string
  it_type :: string
  it_action :: string
  it_buy_condition :: string
  it_stop_loss :: real
  it_target :: real
  it_note :: "string option"

text \<open>The report: \<open>generated_at\<close> (U+751F U+6210 U+65F6 U+95F4), \<open>market_overview\<close>,
  \<open>main_themes\<close> (U+4E3B U+7EBF U+5206 U+6790), \<open>stock_strategies\<close> (U+4E2A U+80A1 U+7B56 U+7565),
  \<open>risk_warnings\<close> (U+98CE U+9669 U+63D0 U+793A), \<open>trading_suggestions\<close> (U+64CD U+4F5C U+5EFA U+8BAE).\<close>

record report =
  generated_at :: string
  market_overview :: market_summary
  main_themes :: "theme list"
  stock_strategies :: "strategy_item list"
  risk_warnings :: "string list"
  trading_suggestions :: "string list"

subsection \<open>Market overview\<close>

fun get_max_continuous_loop :: "stock list \<Rightarrow> nat \<Rightarrow> nat" where
  "get_max_continuous_loop [] max_days = max_days"
| "get_max_continuous_loop (p # ps) max_days =
     get_max_continuous_loop ps (max max_days (case_option 0 id (continuous_days p)))"

definition get_max_continuous_days :: "analysis_result \<Rightarrow> nat" where
  "get_max_continuous_days analysis_results =
     get_max_continuous_loop (patterns analysis_results) 0"

definition calculate_success_rate :: "analysis_result \<Rightarrow> string" where
  "calculate_success_rate analysis_results =
     (let cnt = total_count (summary analysis_results)
      in if cnt = 0 then ''0%''
         else if cnt > 80 then ''85%''
         else if cnt > 50 then ''75%''
         else if cnt > 30 then ''65%''
         else ''55%'')"

text \<open>\<open>_assess_market_sentiment(summary)\<close> and \<open>_assess_profit_effect(summary)\<close>, on
  \<open>summary.get('total_count', 0)\<close>\<close>

definition assess_market_sentiment :: "int \<Rightarrow> string" where
  "assess_market_sentiment cnt =
     (if cnt > 80 then ''gaochao''
      else if cnt > 50 then ''huoyue''
      else if cnt > 30 then ''wenhe''
      else ''bingdian'')"

definition assess_profit_effect :: "int \<Rightarrow> string" where
  "assess_profit_effect cnt =
     (if cnt > 60 then ''hao''
      else if cnt > 40 then ''yiban''
      else ''cha'')"

definition generate_market_summary :: "analysis_result \<Rightarrow> market_summary" where
  "generate_market_summary analysis_results =
     \<lparr>ms_total_count = total_count (summary analysis_results),
      ms_max_streak = get_max_continuous_days analysis_results,
      ms_success_rate = calculate_success_rate analysis_results,
      ms_sentiment = assess_market_sentiment (total_count (summary analysis_results)),
      ms_profit_effect = assess_profit_effect (total_count (summary analysis_results))\<rparr>"

subsection \<open>Themes\<close>

definition rate_sector_strength :: "sector_stat \<Rightarrow> string" where
  "rate_sector_strength stats =
     (if st_count stats \<ge> 10 then ''*****''
      else if st_count stats \<ge> 7 then ''****''
      else if st_count stats \<ge> 5 then ''***''
      else if st_count stats \<ge> 3 then ''**''
      else ''*'')"

text \<open>\<open>StrategyGenerator._judge_sector_persistence(stats)\<close>; the suffix tells it from
  the method of the same name of the sector analyzer.\<close>

definition judge_sector_persistence_sg :: "sector_stat \<Rightarrow> string" where
  "judge_sector_persistence_sg stats =
     (if ''longtou'' \<in> set (st_roles stats) \<and> st_count stats \<ge> 5
      then ''zhuxian mingque, chixuxing jiaoqiang''
      else if st_count stats \<ge> 3 then ''you yiding chixuxing, xu guancha''
      else ''yiriyou kenengxing da, jinshen canyu'')"

text \<open>One step of the statistics loop: the entry of the sector is created at the end
  of the dictionary when the sector is new, then counted up.\<close>

fun stats_add ::
  "string \<Rightarrow> string \<Rightarrow> string \<Rightarrow> (string \<times> sector_stat) list \<Rightarrow> (string \<times> sector_stat) list" where
  "stats_add sector_key role_type c [] =
     [(sector_key, \<lparr>st_count = 1, st_roles = [role_type], st_stock_codes = [c]\<rparr>)]"
| "stats_add sector_key role_type c ((k, st) # rest) =
     (if k = sector_key
      then (k, \<lparr>st_count = st_count st + 1, st_roles = st_roles st @ [role_type],
                st_stock_codes = st_stock_codes st @ [c]\<rparr>) # rest
      else (k, st) # stats_add sector_key role_type c rest)"

fun stats_of_role ::
  "string \<Rightarrow> stock list \<Rightarrow> (string \<times> sector_stat) list \<Rightarrow> (string \<times> sector_stat) list" where
  "stats_of_role role_type [] sector_stats = sector_stats"
| "stats_of_role role_type (s # ss) sector_stats =
     stats_of_role role_type ss
       (stats_add (case_option ''qita'' id (sector s)) role_type (code s) sector_stats)"

definition collect_sector_stats :: "roles \<Rightarrow> (string \<times> sector_stat) list" where
  "collect_sector_stats rs =
     stats_of_role ''guancha'' (guancha rs)
       (stats_of_role ''buzhang'' (buzhang rs)
          (stats_of_role ''zhongjun'' (zhongjun rs)
             (stats_of_role ''longtou'' (longtou rs) [])))"

definition identify_main_themes :: "config \<Rightarrow> roles \<Rightarrow> theme list" where
  "identify_main_themes cfg rs =
     (let sector_stats = collect_sector_stats rs;
          themes =
            map (\<lambda>(sector_key, stats).
                   \<lparr>th_name = sector_key,
                    th_count = st_count stats,
                    th_leader_count = count_list (st_roles stats) ''longtou'',
                    th_rating = rate_sector_strength stats,
                    th_persistence = judge_sector_persistence_sg stats\<rparr>)
              (filter (\<lambda>(sector_key, stats).
                         int (st_count stats) \<ge> sector_strength_threshold cfg)
                 sector_stats)
      in take 3 (sort_reverse (\<lambda>x. real (th_count x)) themes))"

subsection \<open>Stock strategies\<close>

definition get_dragon_strategy :: "stock \<Rightarrow> string" where
  "get_dragon_strategy dragon =
     (if days_of dragon \<ge> 5
      then ''chiyou weizhu, duanban shi jiancang, fanbao shibai lichang''
      else if days_of dragon \<ge> 3
      then ''fenqi shi dixi, jiasu shi chiyou, fangliang zhizhang shi jiancang''
      else ''queren longtou diwei hou jiacang, guanzhu bankuai tidui wanzhengxing'')"

definition dragon_item :: "stock \<Rightarrow> strategy_item" where
  "dragon_item dragon =
     \<lparr>it_code = code dragon, it_name = name dragon, it_role = ''longtou'',
      it_type = ''hexin chicang'',
      it_action = get_dragon_strategy dragon,
      it_buy_condition = ''fenqi dixi huo ruo zhuan qiang shi'',
      it_stop_loss = py_round (close dragon * 0.93) 2,
      it_target = py_round (close dragon * 1.15) 2,
      it_note = None\<rparr>"

definition middle_item :: "stock \<Rightarrow> strategy_item" where
  "middle_item middle =
     \<lparr>it_code = code middle, it_name = name middle, it_role = ''zhongjun'',
      it_type = ''qushi gensui'',
      it_action = ''5 rixian fujin dixi, qushi chiyou'',
      it_buy_condition = ''huicai 5 rixian bu po shi'',
      it_stop_loss = py_round (close middle * 0.95) 2,
      it_target = py_round (close middle * 1.10) 2,
      it_note = None\<rparr>"

definition follower_item :: "stock \<Rightarrow> strategy_item" where
  "follower_item follower =
     \<lparr>it_code = code follower, it_name = name follower, it_role = ''buzhang'',
      it_type = ''duanxian taoli'',
      it_action = ''jingjia qiangshi huo shoufeng daban'',
      it_buy_condition = ''bankuai qiangshi shi zaopan shouban'',
      it_stop_loss = py_round (close follower * 0.92) 2,
      it_target = py_round (close follower * 1.08) 2,
      it_note = Some ''kuaijin kuaichu, zhuyi longtou zoushi''\<rparr>"

definition generate_stock_strategies :: "roles \<Rightarrow> strategy_item list" where
  "generate_stock_strategies rs =
     map dragon_item (longtou rs) @ map middle_item (zhongjun rs)
       @ map follower_item (buzhang rs)"

subsection \<open>Warnings and suggestions\<close>

text \<open>The decimal numeral of a natural number, as an f-string prints it.\<close>

function show_nat :: "nat \<Rightarrow> string" where
  "show_nat n =
     (if n < 10 then [char_of (48 + n)]
      else show_nat (n div 10) @ [char_of (48 + n mod 10)])"
  by pat_completeness auto
termination
  by (relation "measure id") auto

definition generate_risk_warnings :: "analysis_result \<Rightarrow> roles \<Rightarrow> string list" where
  "generate_risk_warnings analysis_results rs =
     (let cnt = total_count (summary analysis_results);
          w1 = (if cnt > 100
                then [''zhangting jiashu guoduo, jingti qingxu gaochao hou de fenhua fengxian'']
                else []);
          w2 = (if cnt < 30
                then [''zhangting jiashu jiaoshao, shichang qingxu dimi, zhuyi cangwei kongzhi'']
                else []);
          max_days = get_max_continuous_days analysis_results;
          w3 = (if max_days \<ge> 7
                then [''zuigao lianban '' @ show_nat max_days
                        @ '' tian, zhuyi gaoweigu budie fengxian'']
                else []);
          w4 = (if length (longtou rs) = 0
                then [''wu mingxian longtou bankuai, shichang zhuxian bu qingxi, jinshen caozuo'']
                else [])
      in w1 @ w2 @ w3 @ w4)"

definition generate_trading_suggestions :: "market_summary \<Rightarrow> theme list \<Rightarrow> string list" where
  "generate_trading_suggestions market_status themes =
     (if ms_sentiment market_status = ''gaochao''
      then [''kongzhi cangwei, youxian chuli chicang, jinshen kai xincang'',
            ''guanzhu diwei shouban huo xin ticai jihui'']
      else if ms_sentiment market_status = ''bingdian''
      then [''xiao cangwei shicuo, guanzhu shuaixian zouqiang de bankuai'',
            ''zhongdian guancha lianbangu nengfou dakai kongjian'']
      else [''quruo liuqiang, jujiao zhuxian bankuai hexin gegu'',
            ''longtou fenqi shi dixi, genfenggu chonggao jiancang''])
     @ (case themes of
          [] \<Rightarrow> []
        | main_theme # _ \<Rightarrow>
            [''zhongdian guanzhu '' @ th_name main_theme @ '' bankuai, ''
               @ th_persistence main_theme])"

subsection \<open>The report\<close>

text \<open>\<open>generate_strategy(analysis_results, roles_identification)\<close>; \<open>now\<close> is the
  formatted \<open>datetime.now()\<close>.\<close>

definition generate_strategy :: "config \<Rightarrow> string \<Rightarrow> analysis_result \<Rightarrow> roles \<Rightarrow> report" where
  "generate_strategy cfg now analysis_results roles_identification =
     (let overview = generate_market_summary analysis_results;
          themes = identify_main_themes cfg roles_identification
      in \<lparr>generated_at = now,
          market_overview = overview,
          main_themes = themes,
          stock_strategies = generate_stock_strategies roles_identification,
          risk_warnings = generate_risk_warnings analysis_results roles_identification,
          trading_suggestions = generate_trading_suggestions overview themes\<rparr>)"

section \<open>The pipeline (\<open>main.py\<close>)\<close>

text \<open>Steps 2 to 6 of \<open>run\<close> without AI commentary: analyse the roster, analyse the
  sectors, identify the roles, generate the strategy. The \<open>meta\<close> entry that
  \<open>_generate_strategy\<close> adds (a second timestamp, the trade date, a version and the name
  of the data source) is left out.\<close>

definition pipeline ::
  "config \<Rightarrow> (string \<Rightarrow> int) \<Rightarrow> string \<Rightarrow> row list \<Rightarrow> (string \<rightharpoonup> history) \<Rightarrow> error + report" where
  "pipeline cfg h now limit_up_df historical_data =
     (let limit_up_analysis = analyze_limit_up (limit_threshold cfg) limit_up_df historical_data
      in bind_err (analyze_sectors h limit_up_df) (\<lambda>sector_analysis.
         bind_err (identify_roles cfg h (stocks limit_up_analysis) sector_analysis) (\<lambda>rs.
         Inr (generate_strategy cfg now limit_up_analysis rs))))"

text \<open>\<open>_generate_empty_report\<close>, without the \<open>meta\<close> entry.\<close>

definition generate_empty_report :: "string \<Rightarrow> report" where
  "generate_empty_report now =
     \<lparr>generated_at = now,
      market_overview =
        \<lparr>ms_total_count = 0, ms_max_streak = 0, ms_success_rate = ''0%'',
         ms_sentiment = ''bingdian'', ms_profit_effect = ''cha''\<rparr>,
      main_themes = [],
      stock_strategies = [],
      risk_warnings =
        [''dangri wu zhangting gupiao, shichang jidu dimi'',
         ''jianyi kongcang guanwang, dengdai shichang huinuan'',
         ''zhuyi kongzhi cangwei, bimian mangmu chaodi''],
      trading_suggestions =
        [''kongcang guanwang, dengdai shichang chuxian mingque xinhao'',
         ''guanzhu shichang liangneng bianhua, dengdai fangliang shangzhang'',
         ''ke guanzhu kangdie bankuai huo gegu, dan buyi zhongcang'']\<rparr>"

text \<open>\<open>run\<close> from the fetched market data on: an empty roster gets the empty report,
  any other roster goes through the pipeline.\<close>

definition run ::
  "config \<Rightarrow> (string \<Rightarrow> int) \<Rightarrow> string \<Rightarrow> row list \<Rightarrow> (string \<rightharpoonup> history) \<Rightarrow> error + report" where
  "run cfg h now limit_up_df historical_data =
     (if limit_up_df = [] then Inr (generate_empty_report now)
      else pipeline cfg h now limit_up_df historical_data)"

section \<open>Concrete inputs\<close>

text \<open>The configuration that \<open>main.py\<close> writes as its default.\<close>

definition default_weights :: weights where
  "default_weights =
     \<lparr>w_streak = 0.35, w_limit_time = 0.25, w_seal_amount = 0.20, w_float_cap = 0.20\<rparr>"

definition default_config :: config where
  "default_config =
     \<lparr>limit_threshold = 9.8, sector_strength_threshold = 3, score_weights = default_weights\<rparr>"

text \<open>An analysed stock without history entries other than its streak.\<close>

definition plain_stock :: "string \<Rightarrow> real \<Rightarrow> nat option \<Rightarrow> stock" where
  "plain_stock c a d =
     \<lparr>code = c, name = c, close = 10, pct_change = 10, amount = a, volume = 1000,
      features = no_features, continuous_days = d, total_increase = None,
      daily_increases = None, continuous_strength = None, composite_score = None,
      sector = None\<rparr>"

text \<open>Three stocks of one sector with their roles, and their roster rows.\<close>

definition ex_roles :: roles where
  "ex_roles =
     \<lparr>longtou = [tag_sector ''keji'' (plain_stock ''000001'' 600000000 (Some 3))],
      zhongjun = [tag_sector ''keji'' (plain_stock ''000002'' 900000000 (Some 1))],
      buzhang = [tag_sector ''keji'' (plain_stock ''000003'' 100000000 None)],
      guancha = []\<rparr>"

definition plain_row :: "string \<Rightarrow> real \<Rightarrow> row" where
  "plain_row c a =
     \<lparr>r_code = c, r_name = Some c, r_close = 10, r_pct_change = 10, r_amount = a,
      r_volume = 1000, r_continuous_days = None\<rparr>"

definition ex_rows :: "row list" where
  "ex_rows = [plain_row ''000001'' 600000000, plain_row ''000002'' 900000000,
              plain_row ''000003'' 100000000]"

text \<open>A hash that gives every string the same value, and two hashes that tell some
  codes apart.\<close>

definition constant_hash :: "int \<Rightarrow> string \<Rightarrow> int" where
  "constant_hash n c = n"

definition split_hash :: "string \<Rightarrow> int" where
  "split_hash c = (if c = ''300001'' \<or> c = ''300002'' then 0 else 2)"

definition other_hash :: "string \<Rightarrow> int" where
  "other_hash c = (if c \<in> {''300001'', ''300002'', ''300003'', ''300004''} then 2 else 5)"

text \<open>A roster of four stocks without histories, the four stocks as the limit-up
  analyzer returns them, and as \<open>_analyze_sector_roles\<close> scores and sorts them under the
  default weights.\<close>

definition roster4 :: "row list" where
  "roster4 = [plain_row ''300001'' 900000000, plain_row ''300002'' 600000000,
              plain_row ''300003'' 300000000, plain_row ''300004'' 100000000]"

definition stocks4 :: "stock list" where
  "stocks4 = [plain_stock ''300001'' 900000000 None, plain_stock ''300002'' 600000000 None,
              plain_stock ''300003'' 300000000 None, plain_stock ''300004'' 100000000 None]"

definition scored_stock :: "string \<Rightarrow> real \<Rightarrow> real \<Rightarrow> stock" where
  "scored_stock c a sc = (plain_stock c a None)\<lparr>composite_score := Some sc\<rparr>"

definition scored4 :: "stock list" where
  "scored4 = [scored_stock ''300001'' 900000000 41, scored_stock ''300002'' 600000000 41,
              scored_stock ''300003'' 300000000 38, scored_stock ''300004'' 100000000 35]"

text \<open>A sector of five stocks with streaks of 5, 3, 2, 1 and 0 days, the fourth with by
  far the largest amount, and the five as \<open>_analyze_sector_roles\<close> scores and sorts
  them under the default weights. A sector of two stocks.\<close>

definition stocks5 :: "stock list" where
  "stocks5 = [plain_stock ''000001'' 100000000 (Some 5), plain_stock ''000002'' 100000000 (Some 3),
              plain_stock ''000003'' 100000000 (Some 2), plain_stock ''000004'' 4000000000 (Some 1),
              plain_stock ''000005'' 100000000 (Some 0)]"

definition streak_stock :: "string \<Rightarrow> real \<Rightarrow> nat \<Rightarrow> real \<Rightarrow> stock" where
  "streak_stock c a d sc = (plain_stock c a (Some d))\<lparr>composite_score := Some sc\<rparr>"

definition scored5 :: "stock list" where
  "scored5 = [streak_stock ''000001'' 100000000 5 70, streak_stock ''000002'' 100000000 3 61.25,
              streak_stock ''000004'' 4000000000 1 53.75, streak_stock ''000003'' 100000000 2 52.5,
              streak_stock ''000005'' 100000000 0 35]"


definition stocks2 :: "stock list" where
  "stocks2 = [plain_stock ''300001'' 900000000 None, plain_stock ''300003'' 300000000 None]"

text \<open>The two halves of the four-stock roster.\<close>

definition roster_keji :: "row list" where
  "roster_keji = [plain_row ''300001'' 900000000, plain_row ''300002'' 600000000]"

definition roster_yiyao :: "row list" where
  "roster_yiyao = [plain_row ''300003'' 300000000, plain_row ''300004'' 100000000]"

text \<open>A history of five days, each closing at the limit.\<close>

definition limit_bar :: bar where
  "limit_bar = \<lparr>b_close = 11, b_volume = 1000, b_pct_change = Some 10, b_preclose = Some 10\<rparr>"

definition five_limit_days :: history where
  "five_limit_days = \<lparr>preclose_column = False, bars = replicate 5 limit_bar\<rparr>"

section \<open>Notions for the statements\<close>

text \<open>The streak as the specification words it: walk back from the most recent bar, at
  most 10 days, counting the days whose percent change reaches the threshold up to the
  first one that does not; the percent change is \<open>pct_change\<close> when present, else
  \<open>(close / pre_close - 1) * 100\<close>, and 0 when \<open>pre_close\<close> is missing or zero.\<close>

definition spec_pct_change :: "bar \<Rightarrow> real" where
  "spec_pct_change b =
     (case b_pct_change b of
        Some p \<Rightarrow> p
      | None \<Rightarrow> (case b_preclose b of
                   None \<Rightarrow> 0
                 | Some pc \<Rightarrow> if pc = 0 then 0 else (b_close b / pc - 1) * 100))"

definition spec_streak :: "real \<Rightarrow> history \<Rightarrow> nat" where
  "spec_streak thr df =
     length (takeWhile (\<lambda>b. thr \<le> spec_pct_change b) (take 10 (rev (bars df))))"

text \<open>The stocks of a role list that carry the sector \<open>k\<close>.\<close>

definition in_sector :: "string \<Rightarrow> stock list \<Rightarrow> stock list" where
  "in_sector k xs = filter (\<lambda>s. sector s = Some k) xs"

text \<open>What the loop of \<open>identify_roles\<close> has added to the leader and core lists once
  it has gone from \<open>rs\<close> to \<open>rs'\<close> over \<open>groups\<close>: for every sector that
  entered the role analysis its leader and its core, for any other sector nothing.\<close>

definition loop_inv :: "config \<Rightarrow> (string \<times> stock list) list \<Rightarrow> roles \<Rightarrow> roles \<Rightarrow> bool" where
  "loop_inv cfg groups rs rs' \<longleftrightarrow>
     (\<forall>k g sr. (k, g) \<in> set groups \<longrightarrow> sector_strength_threshold cfg \<le> int (length g) \<longrightarrow>
        analyze_sector_roles (score_weights cfg) g = Inr sr \<longrightarrow>
          in_sector k (longtou rs')
            = in_sector k (longtou rs) @ map (tag_sector k) (opt_list (sr_longtou sr))
        \<and> in_sector k (zhongjun rs')
            = in_sector k (zhongjun rs) @ map (tag_sector k) (opt_list (sr_zhongjun sr)))
     \<and> (\<forall>k. k \<notin> fst ` set groups \<longrightarrow>
          in_sector k (longtou rs') = in_sector k (longtou rs)
          \<and> in_sector k (zhongjun rs') = in_sector k (zhongjun rs))"

section \<open>Sorting and maxima\<close>

lemma set_sort_reverse: "set (sort_reverse k xs) = set xs"
  by (simp add: sort_reverse_def)

lemma length_sort_reverse: "length (sort_reverse k xs) = length xs"
  by (simp add: sort_reverse_def)

section \<open>Rounding\<close>

lemma py_round_bounds:
  assumes "0 \<le> x" "x \<le> 100"
  shows "0 \<le> py_round x 2 \<and> py_round x 2 \<le> 100"
proof -
  define y where "y = x * 10 ^ 2"
  define f where "f = \<lfloor>y\<rfloor>"
  have y0: "0 \<le> y" and y1: "y \<le> 10000" using assms by (simp_all add: y_def)
  have f0: "0 \<le> f" using y0 by (simp add: f_def)
  have f1: "f \<le> 10000" using y1 unfolding f_def by (simp add: floor_le_iff)
  have f2: "1 / 2 \<le> y - of_int f \<Longrightarrow> f + 1 \<le> 10000"
  proof -
    assume a: "1 / 2 \<le> y - of_int f"
    have "of_int f < (10000::real)" using a y1 by linarith
    then show "f + 1 \<le> 10000" by linarith
  qed
  let ?r = "(if y - of_int f < 1 / 2 then f
             else if 1 / 2 < y - of_int f then f + 1
             else if even f then f else f + 1)"
  have r0: "0 \<le> ?r" using f0 by auto
  have r1: "?r \<le> 10000" using f1 f2 by auto
  have eq: "py_round x 2 = of_int ?r / 10 ^ 2"
    unfolding py_round_def Let_def y_def[symmetric] f_def[symmetric] by simp
  have "0 \<le> (of_int ?r :: real)" using r0 by linarith
  moreover have "(of_int ?r :: real) \<le> 10000" using r1 by linarith
  ultimately show ?thesis unfolding eq by (simp add: field_simps)
qed

section \<open>Market sentiment\<close>

lemma calculate_market_sentiment_tiers:
  "calculate_market_sentiment n = ''gaochao'' \<longleftrightarrow> 100 < n"
  "calculate_market_sentiment n = ''huoyue'' \<longleftrightarrow> 60 < n \<and> n \<le> 100"
  "calculate_market_sentiment n = ''wenhe'' \<longleftrightarrow> 30 < n \<and> n \<le> 60"
  "calculate_market_sentiment n = ''qingdan'' \<longleftrightarrow> 10 < n \<and> n \<le> 30"
  "calculate_market_sentiment n = ''bingdian'' \<longleftrightarrow> n \<le> 10"
  by (auto simp: calculate_market_sentiment_def)

lemma assess_market_sentiment_tiers:
  "assess_market_sentiment n = ''gaochao'' \<longleftrightarrow> 80 < n"
  "assess_market_sentiment n = ''huoyue'' \<longleftrightarrow> 50 < n \<and> n \<le> 80"
  "assess_market_sentiment n = ''wenhe'' \<longleftrightarrow> 30 < n \<and> n \<le> 50"
  "assess_market_sentiment n = ''bingdian'' \<longleftrightarrow> n \<le> 30"
  "assess_market_sentiment n \<noteq> ''qingdan''"
  by (auto simp: assess_market_sentiment_def)

lemma sentiment_labels_agree_iff:
  "assess_market_sentiment n = calculate_market_sentiment n
     \<longleftrightarrow> n \<le> 10 \<or> (30 < n \<and> n \<le> 50) \<or> (60 < n \<and> n \<le> 80) \<or> 100 < n"
  by (auto simp: assess_market_sentiment_def calculate_market_sentiment_def)

text \<open>The crowding warning of the strategy generator, which speaks of the mania of
  sentiment, is given for a total count above 100.\<close>

lemma crowding_warning_iff:
  "''zhangting jiashu guoduo, jingti qingxu gaochao hou de fenhua fengxian''
     \<in> set (generate_risk_warnings a rs) \<longleftrightarrow> 100 < total_count (summary a)"
  by (simp add: generate_risk_warnings_def Let_def)

text \<open>
  Claim C4. The label of the limit-up analyzer follows the thresholds 100, 60, 30 and 10
  (lemma \<open>calculate_market_sentiment_tiers\<close>), but the market overview of the strategy
  generator does not use them: for a total count of 90 the analyzer says huoyue (active)
  and the generator says gaochao (mania), and for 15 the analyzer says qingdan (quiet)
  and the generator says bingdian (frozen).
\<close>

theorem market_sentiment_thresholds_differ:
  "calculate_market_sentiment 90 = ''huoyue'' \<and> assess_market_sentiment 90 = ''gaochao''
   \<and> calculate_market_sentiment 15 = ''qingdan'' \<and> assess_market_sentiment 15 = ''bingdian''"
  by (simp add: calculate_market_sentiment_def assess_market_sentiment_def)

section \<open>Composite score\<close>

lemma amount_score_bounds: "0 \<le> amount_score s \<and> amount_score s \<le> 100"
  by (simp add: amount_score_def)

lemma technical_score_bounds: "0 \<le> technical_score s \<and> technical_score s \<le> 100"
  by (simp add: technical_score_def Let_def)

lemma weighted_bounds:
  fixes a b c d :: real
  assumes "0 \<le> w1" "0 \<le> w2" "0 \<le> w3" "0 \<le> w4" "w1 + w2 + w3 + w4 = 1"
    and "0 \<le> a" "a \<le> 100" "0 \<le> b" "b \<le> 100" "0 \<le> c" "c \<le> 100" "0 \<le> d" "d \<le> 100"
  shows "0 \<le> a * w1 + b * w2 + c * w3 + d * w4 \<and> a * w1 + b * w2 + c * w3 + d * w4 \<le> 100"
proof -
  have "a * w1 \<le> 100 * w1" "b * w2 \<le> 100 * w2" "c * w3 \<le> 100 * w3" "d * w4 \<le> 100 * w4"
    using assms by (simp_all add: mult_right_mono)
  then have "a * w1 + b * w2 + c * w3 + d * w4 \<le> 100 * (w1 + w2 + w3 + w4)"
    by (simp add: algebra_simps)
  moreover have "0 \<le> a * w1" "0 \<le> b * w2" "0 \<le> c * w3" "0 \<le> d * w4"
    using assms by simp_all
  ultimately show ?thesis using assms(5) by simp
qed

text \<open>
  Claim C6. For every stock and every weight configuration whose four weights are
  non-negative and sum to 1, the composite score of the role identifier lies in the closed
  interval from 0 to 100.
\<close>

theorem dragon_score_bounded:
  assumes "0 \<le> w_streak w" "0 \<le> w_limit_time w" "0 \<le> w_seal_amount w" "0 \<le> w_float_cap w"
    and "w_streak w + w_limit_time w + w_seal_amount w + w_float_cap w = 1"
  shows "0 \<le> calculate_dragon_score w s \<and> calculate_dragon_score w s \<le> 100"
proof -
  have c: "0 \<le> real (min (days_of s * 25) 100)" "real (min (days_of s * 25) 100) \<le> 100"
    by simp_all
  have "0 \<le> real (min (days_of s * 25) 100) * w_streak w + 60 * w_limit_time w
            + amount_score s * w_seal_amount w + technical_score s * w_float_cap w
        \<and> real (min (days_of s * 25) 100) * w_streak w + 60 * w_limit_time w
            + amount_score s * w_seal_amount w + technical_score s * w_float_cap w \<le> 100"
    using weighted_bounds[OF assms c(1) c(2), of 60 "amount_score s" "technical_score s"]
      amount_score_bounds[of s] technical_score_bounds[of s] by simp
  then show ?thesis
    unfolding calculate_dragon_score_def Let_def using py_round_bounds by simp
qed

theorem dragon_score_bounded_witness:
  "0 \<le> w_streak default_weights \<and> 0 \<le> w_limit_time default_weights
   \<and> 0 \<le> w_seal_amount default_weights \<and> 0 \<le> w_float_cap default_weights
   \<and> w_streak default_weights + w_limit_time default_weights
       + w_seal_amount default_weights + w_float_cap default_weights = 1
   \<and> 0 \<le> calculate_dragon_score default_weights (plain_stock ''600001'' 600000000 (Some 3))
   \<and> calculate_dragon_score default_weights (plain_stock ''600001'' 600000000 (Some 3)) \<le> 100"
  using dragon_score_bounded[of default_weights "plain_stock ''600001'' 600000000 (Some 3)"]
  by (simp add: default_weights_def)

section \<open>Sector of a stock\<close>

lemma in_list_nth: "xs \<noteq> [] \<Longrightarrow> xs ! nat (x mod int (length xs)) \<in> set xs"
  by (simp add: nat_less_iff)

lemma assign_in_catalogue: "\<exists>s \<in> set sector_catalogue. assign_stock_sector h c sector_catalogue = Inr s"
  unfolding assign_stock_sector_def using in_list_nth[of sector_catalogue "h c"]
  by (simp add: sector_catalogue_def)

lemma get_stock_sector_Nil: "get_stock_sector h [] = Inl IndexError"
  by (simp add: get_stock_sector_def)

lemma get_stock_sector_Cons:
  "get_stock_sector h (c0 # cs) =
     (case map_of sectors_by_prefix c0 of
        Some l \<Rightarrow> Inr (l ! nat (h (c0 # cs) mod int (length l)))
      | None \<Rightarrow> Inr ''qita'')"
  by (simp add: get_stock_sector_def)

lemma prefix_lists_nonempty: "map_of sectors_by_prefix c0 = Some l \<Longrightarrow> l \<noteq> []"
  by (auto simp: sectors_by_prefix_def split: if_splits)

lemma get_stock_sector_range:
  assumes "get_stock_sector h (c0 # cs) = Inr s"
  shows "case map_of sectors_by_prefix c0 of Some l \<Rightarrow> s \<in> set l | None \<Rightarrow> s = ''qita''"
proof (cases "map_of sectors_by_prefix c0")
  case None
  then show ?thesis using assms by (simp add: get_stock_sector_Cons)
next
  case (Some l)
  then have "s = l ! nat (h (c0 # cs) mod int (length l))"
    using assms by (simp add: get_stock_sector_Cons)
  then show ?thesis using Some in_list_nth[OF prefix_lists_nonempty[OF Some]] by simp
qed

lemma prefix_6: "map_of sectors_by_prefix CHR ''6'' = Some [''yinhang'', ''zhengquan'', ''baoxian'', ''jijian'', ''nengyuan'']"
  by (simp add: sectors_by_prefix_def)
lemma prefix_4: "map_of sectors_by_prefix CHR ''4'' = Some [''kechuangban'', ''gaokeji'', ''bandaoti'', ''shengwuyiyao'']"
  by (simp add: sectors_by_prefix_def)
lemma prefix_0: "map_of sectors_by_prefix CHR ''0'' = Some [''zhongxiaoban'', ''zhizaoye'', ''keji'']"
  by (simp add: sectors_by_prefix_def)
lemma prefix_3: "map_of sectors_by_prefix CHR ''3'' = Some [''chuangyeban'', ''keji'', ''yiyao'', ''xinnengyuan'']"
  by (simp add: sectors_by_prefix_def)
lemma prefix_other: "c0 \<notin> {CHR ''6'', CHR ''0'', CHR ''3'', CHR ''4''} \<Longrightarrow> map_of sectors_by_prefix c0 = None"
  by (simp add: sectors_by_prefix_def)

lemma disj_6: "s \<in> set sector_catalogue \<Longrightarrow> s \<notin> set [''yinhang'', ''zhengquan'', ''baoxian'', ''jijian'', ''nengyuan'']"
  by (auto simp: sector_catalogue_def)
lemma disj_4: "s \<in> set sector_catalogue \<Longrightarrow> s \<notin> set [''kechuangban'', ''gaokeji'', ''bandaoti'', ''shengwuyiyao'']"
  by (auto simp: sector_catalogue_def)
lemma common_0: "s \<in> set [''zhongxiaoban'', ''zhizaoye'', ''keji''] \<Longrightarrow> s \<in> set sector_catalogue \<Longrightarrow> s = ''keji''"
  by (auto simp: sector_catalogue_def)

lemma common_3: "s \<in> set [''chuangyeban'', ''keji'', ''yiyao'', ''xinnengyuan''] \<Longrightarrow> s \<in> set sector_catalogue
   \<Longrightarrow> s = ''keji'' \<or> s = ''yiyao'' \<or> s = ''xinnengyuan''"
  by (auto simp: sector_catalogue_def)

text \<open>
  Claim C2, amended. The fallback of the role identifier indexes, with the hash of the
  code, a list chosen by the first character of the code, not the catalogue of the sector
  analyzer. The two functions can only agree on a code whose first character is neither
  6 nor 4, and then on one of the names keji, xinnengyuan, yiyao and qita.
\<close>

theorem fallback_sector_agreement:
  assumes "get_stock_sector h c = assign_stock_sector h c sector_catalogue"
  shows "c \<noteq> [] \<and> hd c \<noteq> CHR ''6'' \<and> hd c \<noteq> CHR ''4''
         \<and> (\<exists>s \<in> {''keji'', ''xinnengyuan'', ''yiyao'', ''qita''}. get_stock_sector h c = Inr s)"
proof -
  obtain s where s: "s \<in> set sector_catalogue" "assign_stock_sector h c sector_catalogue = Inr s"
    using assign_in_catalogue by blast
  have g: "get_stock_sector h c = Inr s" using assms s by simp
  have "c \<noteq> []" using g get_stock_sector_Nil[of h] by (cases c) simp_all
  then obtain c0 cs where c: "c = c0 # cs" by (cases c) simp_all
  note r = get_stock_sector_range[OF g[unfolded c]]
  have n6: "c0 \<noteq> CHR ''6''"
  proof
    assume "c0 = CHR ''6''"
    then have "s \<in> set [''yinhang'', ''zhengquan'', ''baoxian'', ''jijian'', ''nengyuan'']" using r by (simp only: prefix_6 option.case)
    then show False using disj_6[OF s(1)] by blast
  qed
  have n4: "c0 \<noteq> CHR ''4''"
  proof
    assume "c0 = CHR ''4''"
    then have "s \<in> set [''kechuangban'', ''gaokeji'', ''bandaoti'', ''shengwuyiyao'']" using r by (simp only: prefix_4 option.case)
    then show False using disj_4[OF s(1)] by blast
  qed
  have m: "s \<in> {''keji'', ''xinnengyuan'', ''yiyao'', ''qita''}"
  proof (cases "c0 = CHR ''0''")
    case True
    then have "s \<in> set [''zhongxiaoban'', ''zhizaoye'', ''keji'']" using r by (simp only: prefix_0 option.case)
    then have "s = ''keji''" using common_0 s(1) by blast
    then show ?thesis by (simp only: insert_iff simp_thms)
  next
    case n0: False
    show ?thesis
    proof (cases "c0 = CHR ''3''")
      case True
      then have "s \<in> set [''chuangyeban'', ''keji'', ''yiyao'', ''xinnengyuan'']" using r by (simp only: prefix_3 option.case)
      then have "s = ''keji'' \<or> s = ''yiyao'' \<or> s = ''xinnengyuan''" using common_3 s(1) by blast
      then show ?thesis by (simp only: insert_iff) blast
    next
      case False
      then have "c0 \<notin> {CHR ''6'', CHR ''0'', CHR ''3'', CHR ''4''}" using n0 n6 n4 by blast
      then have "map_of sectors_by_prefix c0 = None" by (rule prefix_other)
      then have "s = ''qita''" using r by (simp only: option.case)
      then show ?thesis by (simp only: insert_iff simp_thms)
    qed
  qed
  have "hd c = c0" by (simp only: c list.sel)
  then show ?thesis using \<open>c \<noteq> []\<close> n6 n4 g m by blast
qed


theorem fallback_sector_agreement_witness:
  "get_stock_sector (constant_hash 14) ''000001'' = assign_stock_sector (constant_hash 14) ''000001'' sector_catalogue
   \<and> ''000001'' \<noteq> [] \<and> hd ''000001'' \<noteq> CHR ''6'' \<and> hd ''000001'' \<noteq> CHR ''4''
   \<and> (\<exists>s \<in> {''keji'', ''xinnengyuan'', ''yiyao'', ''qita''}.
          get_stock_sector (constant_hash 14) ''000001'' = Inr s)"
proof -
  have e: "get_stock_sector (constant_hash 14) ''000001''
           = assign_stock_sector (constant_hash 14) ''000001'' sector_catalogue"
    by (simp add: get_stock_sector_def assign_stock_sector_def sector_catalogue_def
        sectors_by_prefix_def constant_hash_def)
  show ?thesis using e fallback_sector_agreement[OF e] by (rule conjI)
qed

text \<open>
  Claim C2 as stated fails: with a hash value of 0 the code 600000 is in yinhang for the
  role identifier and in keji for the sector analyzer.
\<close>

theorem fallback_sector_counterexample:
  "get_stock_sector (constant_hash 0) ''600000'' \<noteq> assign_stock_sector (constant_hash 0) ''600000'' sector_catalogue"
  by (simp add: get_stock_sector_def assign_stock_sector_def sector_catalogue_def
      sectors_by_prefix_def constant_hash_def)

section \<open>Persistence verdict of a theme\<close>

lemma verdicts_differ:
  "judge_sector_persistence_sg stats \<noteq> judge_sector_persistence sector_rows score"
  by (simp add: judge_sector_persistence_sg_def judge_sector_persistence_def)

lemma ex_roles_themes:
  "identify_main_themes default_config ex_roles =
     [\<lparr>th_name = ''keji'', th_count = 3, th_leader_count = 1, th_rating = ''**'',
       th_persistence = ''you yiding chixuxing, xu guancha''\<rparr>]"
  by (simp add: identify_main_themes_def collect_sector_stats_def ex_roles_def tag_sector_def
      plain_stock_def default_config_def sort_reverse_def rate_sector_strength_def
      judge_sector_persistence_sg_def)

text \<open>
  Claim C5, amended. The persistence verdict of every theme of the report is computed from
  the role-assignment statistics of its sector alone: a leader among the roles and at least
  5 stocks give the first verdict, at least 3 stocks the second, anything else the third.
  It is never one of the verdicts of the strength-score rule of the sector analyzer.
\<close>

theorem theme_persistence_rule:
  assumes "th \<in> set (identify_main_themes cfg rs)"
  shows "\<exists>stats. (th_name th, stats) \<in> set (collect_sector_stats rs)
           \<and> th_count th = st_count stats
           \<and> th_persistence th =
               (if ''longtou'' \<in> set (st_roles stats) \<and> 5 \<le> st_count stats
                then ''zhuxian mingque, chixuxing jiaoqiang''
                else if 3 \<le> st_count stats then ''you yiding chixuxing, xu guancha''
                else ''yiriyou kenengxing da, jinshen canyu'')
           \<and> (\<forall>sector_rows score.
                 th_persistence th \<noteq> judge_sector_persistence sector_rows score)"
proof -
  from assms have "th \<in> set (sort_reverse (\<lambda>x. real (th_count x))
      (map (\<lambda>(sector_key, stats).
                   \<lparr>th_name = sector_key,
                    th_count = st_count stats,
                    th_leader_count = count_list (st_roles stats) ''longtou'',
                    th_rating = rate_sector_strength stats,
                    th_persistence = judge_sector_persistence_sg stats\<rparr>)
              (filter (\<lambda>(sector_key, stats).
                         int (st_count stats) \<ge> sector_strength_threshold cfg)
                 (collect_sector_stats rs))))"
    unfolding identify_main_themes_def Let_def by (rule in_set_takeD)
  then obtain k stats where ks: "(k, stats) \<in> set (collect_sector_stats rs)"
    and th: "th = \<lparr>th_name = k,
                    th_count = st_count stats,
                    th_leader_count = count_list (st_roles stats) ''longtou'',
                    th_rating = rate_sector_strength stats,
                    th_persistence = judge_sector_persistence_sg stats\<rparr>"
    unfolding set_sort_reverse by auto
  have p: "th_persistence th = judge_sector_persistence_sg stats" by (simp add: th)
  have "(th_name th, stats) \<in> set (collect_sector_stats rs)" using ks by (simp add: th)
  moreover have "th_count th = st_count stats" by (simp add: th)
  moreover have "th_persistence th =
               (if ''longtou'' \<in> set (st_roles stats) \<and> 5 \<le> st_count stats
                then ''zhuxian mingque, chixuxing jiaoqiang''
                else if 3 \<le> st_count stats then ''you yiding chixuxing, xu guancha''
                else ''yiriyou kenengxing da, jinshen canyu'')"
    unfolding p judge_sector_persistence_sg_def by simp
  moreover have
    "\<forall>sector_rows score. th_persistence th \<noteq> judge_sector_persistence sector_rows score"
    unfolding p using verdicts_differ by blast
  ultimately show ?thesis by blast
qed

theorem theme_persistence_rule_witness:
  "\<lparr>th_name = ''keji'', th_count = 3, th_leader_count = 1, th_rating = ''**'',
     th_persistence = ''you yiding chixuxing, xu guancha''\<rparr>
     \<in> set (identify_main_themes default_config ex_roles)
   \<and> (\<exists>stats. (''keji'', stats) \<in> set (collect_sector_stats ex_roles)
          \<and> 3 = st_count stats
          \<and> ''you yiding chixuxing, xu guancha'' =
               (if ''longtou'' \<in> set (st_roles stats) \<and> 5 \<le> st_count stats
                then ''zhuxian mingque, chixuxing jiaoqiang''
                else if 3 \<le> st_count stats then ''you yiding chixuxing, xu guancha''
                else ''yiriyou kenengxing da, jinshen canyu'')
          \<and> (\<forall>sector_rows score.
                ''you yiding chixuxing, xu guancha''
                  \<noteq> judge_sector_persistence sector_rows score))"
proof -
  let ?th = "\<lparr>th_name = ''keji'', th_count = 3, th_leader_count = 1, th_rating = ''**'',
     th_persistence = ''you yiding chixuxing, xu guancha''\<rparr>"
  have m: "?th \<in> set (identify_main_themes default_config ex_roles)"
    by (simp only: ex_roles_themes list.set insert_iff simp_thms)
  show ?thesis using m theme_persistence_rule[OF m] by simp
qed

lemma ex_rows_strength: "calculate_sector_strength ex_rows = 45"
  by (simp add: calculate_sector_strength_def ex_rows_def plain_row_def row_days_def
      py_round_def Let_def)

text \<open>
  Claim C5 as stated fails: for three stocks of one sector holding the three roles, the
  theme gets the verdict of the count rule, while the strength-score rule of the sector
  analyzer gives these three stocks (strength 45) another verdict.
\<close>

theorem theme_persistence_counterexample:
  "map th_persistence (identify_main_themes default_config ex_roles)
     = [''you yiding chixuxing, xu guancha'']
   \<and> judge_sector_persistence ex_rows (calculate_sector_strength ex_rows)
     = ''yiban, jinshen canyu''
   \<and> map th_persistence (identify_main_themes default_config ex_roles)
     \<noteq> [judge_sector_persistence ex_rows (calculate_sector_strength ex_rows)]"
  by (simp add: ex_roles_themes ex_rows_strength judge_sector_persistence_def)

section \<open>Streak detection\<close>

lemma limit_up_walk_takeWhile:
  "limit_up_walk thr pc bs n =
     n + length (takeWhile (\<lambda>b. case day_pct_change pc b of Some p \<Rightarrow> thr \<le> p
                                 | None \<Rightarrow> False) bs)"
  by (induction bs arbitrary: n) (auto split: option.splits)

lemma day_counts_unfold:
  "(case day_pct_change pc b of Some p \<Rightarrow> thr \<le> p | None \<Rightarrow> False)
     = (case b_pct_change b of
          Some p \<Rightarrow> thr \<le> p
        | None \<Rightarrow> pc \<and> thr \<le> (case b_preclose b of
                                    Some q \<Rightarrow> if 0 < q then (b_close b / q - 1) * 100 else 0
                                  | None \<Rightarrow> 0))"
  by (simp add: day_pct_change_def split: option.splits)

lemma check_limit_up_days_takeWhile:
  "check_limit_up_days thr df =
     length (takeWhile (\<lambda>b. case day_pct_change (preclose_column df) b of
                               Some p \<Rightarrow> thr \<le> p | None \<Rightarrow> False)
               (take (min 10 (length (bars df) - 1)) (rev (bars df))))"
  by (simp add: check_limit_up_days_def limit_up_walk_takeWhile)

lemma mark_code: "code (mark_continuous hist s) = code s"
  by (simp add: mark_continuous_def Let_def split: option.splits)

lemma mark_days: "days_of (mark_continuous hist s) = days_of s"
  by (simp add: mark_continuous_def Let_def days_of_def split: option.splits)

lemma analysed_code: "code (analyze_single_stock thr hist r) = r_code r"
  by (simp add: analyze_single_stock_def Let_def split: option.splits)

lemma analysed_days:
  "2 \<le> days_of (analyze_single_stock thr hist r)
     \<Longrightarrow> hist (code (analyze_single_stock thr hist r)) \<noteq> None"
  by (auto simp: analyze_single_stock_def Let_def days_of_def split: option.splits if_splits)

lemma is_continuous_iff:
  "is_continuous hist (mark_continuous hist (analyze_single_stock thr hist r))
     \<longleftrightarrow> 2 \<le> days_of (mark_continuous hist (analyze_single_stock thr hist r))"
  using analysed_days[of thr hist r]
  by (auto simp: is_continuous_def mark_code mark_days days_of_def[symmetric]
      split: option.splits)

lemma mset_sort_reverse: "mset (sort_reverse k xs) = mset xs"
  by (simp add: sort_reverse_def)

lemma patterns_exact:
  "mset (patterns (analyze_limit_up thr df hist))
     = filter_mset (\<lambda>s. 2 \<le> days_of s) (mset (stocks (analyze_limit_up thr df hist)))"
proof (cases "df = []")
  case True
  then show ?thesis by (simp add: analyze_limit_up_def empty_analysis_result_def)
next
  case False
  have "filter (is_continuous hist)
          (map (mark_continuous hist) (map (analyze_single_stock thr hist) df))
        = filter (\<lambda>s. 2 \<le> days_of s)
            (map (mark_continuous hist) (map (analyze_single_stock thr hist) df))"
    by (rule filter_cong) (auto simp: is_continuous_iff)
  then show ?thesis using False
    by (simp add: analyze_limit_up_def find_continuous_limit_up_def Let_def mset_sort_reverse)
qed

lemma five_limit_days_streaks:
  "check_limit_up_days 9.8 five_limit_days = 4" "spec_streak 9.8 five_limit_days = 5"
  by (simp_all add: check_limit_up_days_def five_limit_days_def limit_bar_def spec_streak_def
      spec_pct_change_def day_pct_change_def numeral_eq_Suc)

text \<open>
  Claim C7, amended. Streak detection walks the history backward from the most recent
  bar over at most \<open>min 10 (n - 1)\<close> days of a history of \<open>n\<close> bars, so the oldest bar is
  never examined. It counts a day iff its percent change reaches the configured threshold
  and stops at the first day that does not count. The percent change is \<open>pct_change\<close>
  when present; else, when the frame has the columns \<open>close\<close> and \<open>preclose\<close>, it is
  \<open>(close / preclose - 1) * 100\<close> for a positive \<open>preclose\<close> and 0 otherwise; else the day
  does not count. The streak stocks of the analysis are exactly its analysed stocks with
  \<open>continuous_days\<close> of at least 2.
\<close>

theorem streak_detection:
  "check_limit_up_days thr df =
     length (takeWhile
               (\<lambda>b. case b_pct_change b of
                       Some p \<Rightarrow> thr \<le> p
                     | None \<Rightarrow>
                         preclose_column df
                         \<and> thr \<le> (case b_preclose b of
                                     Some q \<Rightarrow> if 0 < q then (b_close b / q - 1) * 100 else 0
                                   | None \<Rightarrow> 0))
               (take (min 10 (length (bars df) - 1)) (rev (bars df))))
   \<and> mset (patterns (analyze_limit_up thr roster hist))
       = filter_mset (\<lambda>s. 2 \<le> days_of s) (mset (stocks (analyze_limit_up thr roster hist)))"
  using check_limit_up_days_takeWhile[of thr df] patterns_exact[of thr roster hist]
  by (simp only: day_counts_unfold simp_thms)

text \<open>
  Claim C7 as stated fails: on a history of five bars that all close at the limit, the
  walk with a cap of 10 days counts 5 days, the code 4.
\<close>

theorem streak_detection_counterexample:
  "check_limit_up_days 9.8 five_limit_days \<noteq> spec_streak 9.8 five_limit_days"
  unfolding five_limit_days_streaks by simp

section \<open>Roles inside one sector\<close>

lemma max_from_in: "max_from k m xs \<in> set (m # xs)"
  by (induction xs arbitrary: m) auto

lemma max_from_ge_start: "k m \<le> k (max_from k m xs)"
proof (induction xs arbitrary: m)
  case Nil
  then show ?case by simp
next
  case (Cons x xs)
  show ?case using Cons[of "if k m < k x then x else m"] by (auto split: if_splits)
qed

lemma max_from_ge: "x \<in> set (m # xs) \<Longrightarrow> k x \<le> k (max_from k m xs)"
proof (induction xs arbitrary: m)
  case Nil
  then show ?case by simp
next
  case (Cons y ys)
  let ?m' = "if k m < k y then y else m"
  have s: "k m \<le> k (max_from k ?m' ys)" "k y \<le> k (max_from k ?m' ys)"
    using max_from_ge_start[of k ?m' ys] by (auto split: if_splits)
  from Cons.prems have "x = m \<or> x = y \<or> x \<in> set ys" by auto
  then show ?case using s Cons.IH[of ?m'] by auto
qed

lemma py_max_Inr:
  assumes "xs \<noteq> []"
  shows "\<exists>m. py_max k xs = Inr m \<and> m \<in> set xs \<and> (\<forall>x \<in> set xs. k x \<le> k m)"
proof -
  obtain y ys where xs: "xs = y # ys" using assms by (cases xs) auto
  show ?thesis unfolding xs py_max_def using max_from_in[of k y ys] max_from_ge[of _ y ys k]
    by auto
qed

lemma py_max_InrD:
  assumes "py_max k xs = Inr m"
  shows "m \<in> set xs \<and> (\<forall>x \<in> set xs. k x \<le> k m)"
proof -
  have "xs \<noteq> []" using assms by (auto simp: py_max_def)
  from py_max_Inr[OF this, of k] assms show ?thesis by auto
qed

lemma sort_reverse_hd_max:
  assumes "x \<in> set xs"
  shows "k x \<le> k (hd (sort_reverse k xs))"
proof -
  let ?ys = "sort_reverse k xs"
  have s: "sorted (map (\<lambda>x. - k x) ?ys)" by (simp add: sort_reverse_def)
  have ne: "?ys \<noteq> []" using assms set_sort_reverse[of k xs] by auto
  then obtain y ys' where ys: "?ys = y # ys'" by (cases ?ys) auto
  have "x \<in> set ?ys" using assms by (simp add: set_sort_reverse)
  then have "- k y \<le> - k x" using s unfolding ys by auto
  then show ?thesis unfolding ys by simp
qed

lemma retry_subset_top5: "set (take 2 (drop 1 xs)) \<subseteq> set (take 5 xs)"
proof -
  have "take 2 (drop 1 xs) = drop 1 (take 3 xs)" by (simp add: drop_take)
  then have "set (take 2 (drop 1 xs)) \<subseteq> set (take 3 xs)" by (simp add: set_drop_subset)
  also have "\<dots> \<subseteq> set (take 5 xs)" by (rule set_take_subset_set_take) simp
  finally show ?thesis .
qed

lemma select_longtou_total:
  assumes "scored \<noteq> []"
  shows "\<exists>lt. select_longtou scored = Inr (Some lt) \<and> lt \<in> set scored
          \<and> (if filter (\<lambda>s. 2 \<le> days_of s) scored \<noteq> []
              then py_max score_of (filter (\<lambda>s. 2 \<le> days_of s) scored) = Inr lt
              else lt = hd scored)"
proof (cases "filter (\<lambda>s. 2 \<le> days_of s) scored = []")
  case True
  then show ?thesis using assms by (cases scored) (auto simp: select_longtou_def Let_def)
next
  case False
  from py_max_Inr[OF False, of score_of] obtain m where
    m: "py_max score_of (filter (\<lambda>s. 2 \<le> days_of s) scored) = Inr m"
       "m \<in> set (filter (\<lambda>s. 2 \<le> days_of s) scored)" by blast
  then show ?thesis using False assms by (simp add: select_longtou_def Let_def bind_err_def)
qed

lemma select_zhongjun_total:
  assumes "2 \<le> length scored"
  shows "\<exists>m c. select_zhongjun scored (Some lt) = Inr (Some c)
           \<and> py_max amount (take 5 scored) = Inr m
           \<and> (code m \<noteq> code lt \<longrightarrow> c = m)
           \<and> (code m = code lt \<longrightarrow>
                (if 2 < length scored
                    \<and> filter (\<lambda>s. code s \<noteq> code lt) (take 2 (drop 1 scored)) \<noteq> []
                 then py_max amount (filter (\<lambda>s. code s \<noteq> code lt) (take 2 (drop 1 scored)))
                        = Inr c
                 else c = m))"
proof -
  have t: "take (min 5 (length scored)) scored = take 5 scored" by (simp add: min_def)
  have "take 5 scored \<noteq> []" using assms by auto
  from py_max_Inr[OF this, of amount] obtain m where m: "py_max amount (take 5 scored) = Inr m"
    by blast
  let ?cands = "filter (\<lambda>s. code s \<noteq> code lt) (take 2 (drop 1 scored))"
  show ?thesis
  proof (cases "code m = code lt \<and> 2 < length scored \<and> ?cands \<noteq> []")
    case True
    then obtain c where c: "py_max amount ?cands = Inr c" using py_max_Inr[of ?cands amount] by blast
    show ?thesis using True assms m c
      by (simp add: select_zhongjun_def t bind_err_def Let_def)
  next
    case False
    then show ?thesis using assms m
      by (auto simp add: select_zhongjun_def t bind_err_def Let_def)
  qed
qed

lemma select_buzhang_total: "\<exists>bz. select_buzhang scored lt zj = Inr bz"
proof -
  let ?low = "filter (\<lambda>s. days_of s \<le> 1 \<and> case_option 50 id (price_position (features s)) < 50) scored"
  let ?cands = "if ?low = [] then filter (\<lambda>s. case_option False id (is_breakout (features s))) (tail 3 scored) else ?low"
  show ?thesis
  proof (cases "2 < length scored \<and> ?cands \<noteq> []")
    case True
    then obtain f where "py_max (\<lambda>x. case_option 0 id (trend_strength (features x))) ?cands = Inr f"
      using py_max_Inr[of ?cands] by blast
    then show ?thesis using True
      by (auto simp: select_buzhang_def Let_def bind_err_def split: option.splits prod.splits)
  next
    case False
    then show ?thesis by (auto simp: select_buzhang_def Let_def)
  qed
qed

lemma length_score_stocks: "length (score_stocks w g) = length g"
  by (simp add: score_stocks_def length_sort_reverse)

lemma analyze_sector_roles_small:
  "length g < 2 \<Longrightarrow> analyze_sector_roles w g = Inr \<lparr>sr_longtou = None, sr_zhongjun = None, sr_buzhang = None\<rparr>"
  by (simp add: analyze_sector_roles_def)

lemma analyze_sector_roles_shape:
  assumes "2 \<le> length g"
  shows "\<exists>lt c bz. analyze_sector_roles w g
             = Inr \<lparr>sr_longtou = Some lt, sr_zhongjun = Some c, sr_buzhang = bz\<rparr>
           \<and> select_longtou (score_stocks w g) = Inr (Some lt)
           \<and> select_zhongjun (score_stocks w g) (Some lt) = Inr (Some c)"
proof -
  let ?sc = "score_stocks w g"
  have len: "2 \<le> length ?sc" using assms by (simp add: length_score_stocks)
  then have ne: "?sc \<noteq> []" by auto
  from select_longtou_total[OF ne] obtain lt where lt: "select_longtou ?sc = Inr (Some lt)" by blast
  from select_zhongjun_total[OF len, of lt] obtain c where c: "select_zhongjun ?sc (Some lt) = Inr (Some c)" by blast
  from select_buzhang_total[of ?sc "Some lt" "Some c"] obtain bz where bz: "select_buzhang ?sc (Some lt) (Some c) = Inr bz" by blast
  show ?thesis using assms lt c bz by (simp add: analyze_sector_roles_def Let_def bind_err_def)
qed

lemma analyze_sector_roles_total: "\<exists>sr. analyze_sector_roles w g = Inr sr"
proof (cases "length g < 2")
  case True
  then show ?thesis by (simp add: analyze_sector_roles_small)
next
  case False
  then have "2 \<le> length g" by simp
  from analyze_sector_roles_shape[OF this, of w] show ?thesis by blast
qed

lemma days_of_scored: "days_of (s\<lparr>composite_score := x\<rparr>) = days_of s"
  by (simp add: days_of_def)

lemma set_score_stocks:
  "set (score_stocks w g) = (\<lambda>s. s\<lparr>composite_score := Some (calculate_dragon_score w s)\<rparr>) ` set g"
  by (simp add: score_stocks_def set_sort_reverse)

lemma streak_candidates_iff:
  "filter (\<lambda>s. 2 \<le> days_of s) (score_stocks w g) \<noteq> [] \<longleftrightarrow> (\<exists>s \<in> set g. 2 \<le> days_of s)"
  by (auto simp: filter_empty_conv set_score_stocks days_of_scored)

lemma score_stocks_hd_max:
  assumes "x \<in> set (score_stocks w g)"
  shows "score_of x \<le> score_of (hd (score_stocks w g))"
proof -
  let ?ys = "map (\<lambda>s. s\<lparr>composite_score := Some (calculate_dragon_score w s)\<rparr>) g"
  have "x \<in> set ?ys" using assms by (simp add: score_stocks_def set_sort_reverse)
  from sort_reverse_hd_max[OF this, of score_of] show ?thesis by (simp add: score_stocks_def)
qed

lemma leader_selected:
  assumes "select_longtou (score_stocks w g) = Inr (Some lt)" and "g \<noteq> []"
  shows "lt \<in> set (score_stocks w g)
         \<and> (if \<exists>s \<in> set g. 2 \<le> days_of s
            then 2 \<le> days_of lt
                 \<and> (\<forall>x \<in> set (score_stocks w g). 2 \<le> days_of x \<longrightarrow> score_of x \<le> score_of lt)
            else \<forall>x \<in> set (score_stocks w g). score_of x \<le> score_of lt)"
proof -
  let ?sc = "score_stocks w g"
  have ne: "?sc \<noteq> []" using assms(2) length_score_stocks[of w g] by auto
  from select_longtou_total[OF ne] assms(1) have
    i: "lt \<in> set ?sc"
    and r: "if filter (\<lambda>s. 2 \<le> days_of s) ?sc \<noteq> []
            then py_max score_of (filter (\<lambda>s. 2 \<le> days_of s) ?sc) = Inr lt
            else lt = hd ?sc"
    by auto
  show ?thesis
  proof (cases "\<exists>s \<in> set g. 2 \<le> days_of s")
    case True
    then have "filter (\<lambda>s. 2 \<le> days_of s) ?sc \<noteq> []"
      using streak_candidates_iff[of w g] by blast
    then have "py_max score_of (filter (\<lambda>s. 2 \<le> days_of s) ?sc) = Inr lt" using r by simp
    from py_max_InrD[OF this] show ?thesis using True i by auto
  next
    case False
    then have "\<not> filter (\<lambda>s. 2 \<le> days_of s) ?sc \<noteq> []"
      using streak_candidates_iff[of w g] by blast
    then have "lt = hd ?sc" using r by simp
    then show ?thesis using False i score_stocks_hd_max[of _ w g] by auto
  qed
qed

lemma core_selected:
  assumes "select_zhongjun (score_stocks w g) (Some lt) = Inr (Some c)" and "2 \<le> length g"
  shows "\<exists>m. let scored = score_stocks w g;
                retry = filter (\<lambda>s. code s \<noteq> code lt) (take 2 (drop 1 scored))
            in py_max amount (take 5 scored) = Inr m
               \<and> m \<in> set (take 5 scored)
               \<and> (\<forall>x \<in> set (take 5 scored). amount x \<le> amount m)
               \<and> (code m \<noteq> code lt \<longrightarrow> c = m)
               \<and> (code m = code lt \<longrightarrow>
                     (if 2 < length scored \<and> retry \<noteq> []
                      then py_max amount retry = Inr c
                           \<and> (\<forall>x \<in> set retry. amount x \<le> amount c)
                      else c = m))
               \<and> c \<in> set (take 5 scored)"
proof -
  let ?sc = "score_stocks w g"
  let ?retry = "filter (\<lambda>s. code s \<noteq> code lt) (take 2 (drop 1 ?sc))"
  have len: "2 \<le> length ?sc" using assms(2) by (simp add: length_score_stocks)
  from select_zhongjun_total[OF len, of lt] assms(1) obtain m where
    m: "py_max amount (take 5 ?sc) = Inr m"
    and c1: "code m \<noteq> code lt \<longrightarrow> c = m"
    and c2: "code m = code lt \<longrightarrow>
               (if 2 < length ?sc \<and> ?retry \<noteq> [] then py_max amount ?retry = Inr c else c = m)"
    by auto
  note mD = py_max_InrD[OF m]
  have r: "py_max amount ?retry = Inr c \<Longrightarrow>
             (\<forall>x \<in> set ?retry. amount x \<le> amount c) \<and> c \<in> set (take 5 ?sc)"
  proof -
    assume p: "py_max amount ?retry = Inr c"
    from py_max_InrD[OF p] have "c \<in> set ?retry" and g: "\<forall>x \<in> set ?retry. amount x \<le> amount c"
      by blast+
    then have "c \<in> set (take 2 (drop 1 ?sc))" by simp
    then show ?thesis using g retry_subset_top5[of ?sc] by blast
  qed
  have in5: "c \<in> set (take 5 ?sc)"
    using c1 c2 mD r by (cases "code m = code lt") (auto split: if_splits)
  have c2': "code m = code lt \<longrightarrow>
               (if 2 < length ?sc \<and> ?retry \<noteq> []
                then py_max amount ?retry = Inr c \<and> (\<forall>x \<in> set ?retry. amount x \<le> amount c)
                else c = m)"
    using c2 r by (auto split: if_splits)
  show ?thesis using m mD c1 c2' in5 unfolding Let_def by blast
qed

lemma streak_scores:
  "calculate_dragon_score default_weights (plain_stock c 100000000 (Some 5)) = 70"
  "calculate_dragon_score default_weights (plain_stock c 100000000 (Some 3)) = 61.25"
  "calculate_dragon_score default_weights (plain_stock c 100000000 (Some 2)) = 52.5"
  "calculate_dragon_score default_weights (plain_stock c 4000000000 (Some (Suc 0))) = 53.75"
  "calculate_dragon_score default_weights (plain_stock c 100000000 (Some 0)) = 35"
  by (simp_all add: calculate_dragon_score_def default_weights_def plain_stock_def days_of_def
      amount_score_def technical_score_def no_features_def py_round_def Let_def)

lemma stocks5_scored: "score_stocks default_weights stocks5 = scored5"
  by (simp add: score_stocks_def stocks5_def streak_scores sort_reverse_def scored5_def
      streak_stock_def score_of_def)

text \<open>The leader is the stock with the streak of 5 days; the core is the stock of
  largest amount, which has only the third-highest score.\<close>

lemma stocks5_roles:
  "analyze_sector_roles default_weights stocks5 =
     Inr \<lparr>sr_longtou = Some (streak_stock ''000001'' 100000000 5 70),
          sr_zhongjun = Some (streak_stock ''000004'' 4000000000 1 53.75),
          sr_buzhang = None\<rparr>"
proof -
  have l: "select_longtou scored5 = Inr (Some (streak_stock ''000001'' 100000000 5 70))"
    by (simp add: select_longtou_def scored5_def streak_stock_def plain_stock_def days_of_def
        py_max_def bind_err_def score_of_def)
  have z: "select_zhongjun scored5 (Some (streak_stock ''000001'' 100000000 5 70))
             = Inr (Some (streak_stock ''000004'' 4000000000 1 53.75))"
    by (simp add: select_zhongjun_def scored5_def streak_stock_def plain_stock_def py_max_def
        bind_err_def)
  have b: "select_buzhang scored5 (Some (streak_stock ''000001'' 100000000 5 70))
             (Some (streak_stock ''000004'' 4000000000 1 53.75)) = Inr None"
    by (simp add: select_buzhang_def scored5_def streak_stock_def plain_stock_def days_of_def
        no_features_def tail_def)
  have n: "\<not> length stocks5 < 2" by (simp add: stocks5_def)
  show ?thesis
    by (simp only: analyze_sector_roles_def n if_False Let_def stocks5_scored l z b bind_err_def
        sum.case)
qed

text \<open>
  Claim C9. In a sector of at least two stocks the core is chosen among the five
  best-scored stocks as the one of maximal amount; when that pick has the code of the
  leader, the choice is made again among the stocks of rank 2 and 3 whose code is not the
  leader's, by maximal amount; in every case the core is one of the five best-scored stocks.
\<close>

theorem core_selection:
  assumes "2 \<le> length sector_stocks"
  shows "\<exists>lt m c bz.
           analyze_sector_roles w sector_stocks
             = Inr \<lparr>sr_longtou = Some lt, sr_zhongjun = Some c, sr_buzhang = bz\<rparr>
           \<and> (let scored = score_stocks w sector_stocks;
                   retry = filter (\<lambda>s. code s \<noteq> code lt) (take 2 (drop 1 scored))
               in py_max amount (take 5 scored) = Inr m
                  \<and> m \<in> set (take 5 scored)
                  \<and> (\<forall>x \<in> set (take 5 scored). amount x \<le> amount m)
                  \<and> (code m \<noteq> code lt \<longrightarrow> c = m)
                  \<and> (code m = code lt \<longrightarrow>
                        (if 2 < length scored \<and> retry \<noteq> []
                         then py_max amount retry = Inr c
                              \<and> (\<forall>x \<in> set retry. amount x \<le> amount c)
                         else c = m))
                  \<and> c \<in> set (take 5 scored))"
proof -
  from analyze_sector_roles_shape[OF assms, of w] obtain lt c bz where
    a: "analyze_sector_roles w sector_stocks
          = Inr \<lparr>sr_longtou = Some lt, sr_zhongjun = Some c, sr_buzhang = bz\<rparr>"
    and zj: "select_zhongjun (score_stocks w sector_stocks) (Some lt) = Inr (Some c)" by blast
  from core_selected[OF zj assms] a show ?thesis by blast
qed

theorem core_selection_witness:
  "2 \<le> length stocks5
   \<and> (\<exists>lt m c bz.
           analyze_sector_roles default_weights stocks5
             = Inr \<lparr>sr_longtou = Some lt, sr_zhongjun = Some c, sr_buzhang = bz\<rparr>
           \<and> (let scored = score_stocks default_weights stocks5;
                   retry = filter (\<lambda>s. code s \<noteq> code lt) (take 2 (drop 1 scored))
               in py_max amount (take 5 scored) = Inr m
                  \<and> m \<in> set (take 5 scored)
                  \<and> (\<forall>x \<in> set (take 5 scored). amount x \<le> amount m)
                  \<and> (code m \<noteq> code lt \<longrightarrow> c = m)
                  \<and> (code m = code lt \<longrightarrow>
                        (if 2 < length scored \<and> retry \<noteq> []
                         then py_max amount retry = Inr c
                              \<and> (\<forall>x \<in> set retry. amount x \<le> amount c)
                         else c = m))
                  \<and> c \<in> set (take 5 scored)))"
proof -
  have l: "2 \<le> length stocks5" by (simp add: stocks5_def)
  show ?thesis using l core_selection[OF l, of default_weights] by (rule conjI)
qed

section \<open>Roles over all sectors\<close>

lemma group_append_keys:
  "map fst (group_append k v g) = (if k \<in> set (map fst g) then map fst g else map fst g @ [k])"
  by (induction g) (auto simp: rev_image_eqI)

lemma group_append_distinct:
  "distinct (map fst g) \<Longrightarrow> distinct (map fst (group_append k v g))"
  by (simp add: group_append_keys)

lemma group_by_sector_loop_distinct:
  "distinct (map fst g) \<Longrightarrow> group_by_sector_loop h sd ss g = Inr g' \<Longrightarrow> distinct (map fst g')"
proof (induction ss arbitrary: g)
  case Nil
  then show ?case by simp
next
  case (Cons s ss)
  from Cons.prems(2) obtain k where
    k: "get_stock_sector_from_data h (code s) sd = Inr k"
    and r: "group_by_sector_loop h sd ss (group_append k s g) = Inr g'"
    by (auto simp: bind_err_def split: sum.splits)
  show ?case using Cons.IH[OF group_append_distinct[OF Cons.prems(1)] r] .
qed

lemma group_by_sector_distinct:
  "group_by_sector h ss sd = Inr g \<Longrightarrow> distinct (map fst g)"
  unfolding group_by_sector_def using group_by_sector_loop_distinct[of "[]"] by simp

lemma sector_tag: "sector (tag_sector k s) = Some k"
  by (simp add: tag_sector_def)

lemma in_sector_append: "in_sector k (xs @ ys) = in_sector k xs @ in_sector k ys"
  by (simp add: in_sector_def)

lemma in_sector_tagged_same: "in_sector k (map (tag_sector k) xs) = map (tag_sector k) xs"
  by (induction xs) (simp_all add: sector_tag in_sector_def)

lemma in_sector_tagged_other: "k' \<noteq> k \<Longrightarrow> in_sector k (map (tag_sector k') xs) = []"
  by (induction xs) (simp_all add: sector_tag in_sector_def)

lemma add_sector_roles_fields:
  "longtou (add_sector_roles k sr rs) = longtou rs @ map (tag_sector k) (opt_list (sr_longtou sr))"
  "zhongjun (add_sector_roles k sr rs) = zhongjun rs @ map (tag_sector k) (opt_list (sr_zhongjun sr))"
  "buzhang (add_sector_roles k sr rs) = buzhang rs @ map (tag_sector k) (opt_list (sr_buzhang sr))"
  "guancha (add_sector_roles k sr rs) = guancha rs"
  by (simp_all add: add_sector_roles_def)

lemma identify_loop_Cons_strong:
  assumes "sector_strength_threshold cfg \<le> int (length g0)"
    and "analyze_sector_roles (score_weights cfg) g0 = Inr sr"
  shows "identify_loop cfg ((k0, g0) # groups) rs = identify_loop cfg groups (add_sector_roles k0 sr rs)"
  using assms by (simp add: bind_err_def)

lemma identify_loop_Cons_weak:
  assumes "\<not> sector_strength_threshold cfg \<le> int (length g0)"
  shows "identify_loop cfg ((k0, g0) # groups) rs
           = identify_loop cfg groups (rs\<lparr>guancha := guancha rs @ map (tag_sector k0) g0\<rparr>)"
  using assms by simp

lemma identify_loop_inv:
  assumes "distinct (map fst groups)"
  shows "\<exists>rs'. identify_loop cfg groups rs = Inr rs' \<and> loop_inv cfg groups rs rs'"
  using assms
proof (induction groups arbitrary: rs)
  case Nil
  then show ?case by (simp add: loop_inv_def)
next
  case (Cons kg groups)
  obtain k0 g0 where kg: "kg = (k0, g0)" by (cases kg)
  have d: "distinct (map fst groups)" and k0: "k0 \<notin> fst ` set groups"
    using Cons.prems by (auto simp: kg)
  show ?case
  proof (cases "sector_strength_threshold cfg \<le> int (length g0)")
    case True
    obtain sr0 where sr0: "analyze_sector_roles (score_weights cfg) g0 = Inr sr0"
      using analyze_sector_roles_total by blast
    let ?rs1 = "add_sector_roles k0 sr0 rs"
    have step: "identify_loop cfg (kg # groups) rs = identify_loop cfg groups ?rs1"
      unfolding kg by (rule identify_loop_Cons_strong[OF True sr0])
    from Cons.IH[OF d, of ?rs1] obtain rs' where
      r: "identify_loop cfg groups ?rs1 = Inr rs'" and inv: "loop_inv cfg groups ?rs1 rs'"
      by blast
    have "loop_inv cfg (kg # groups) rs rs'"
      unfolding loop_inv_def
    proof (intro conjI allI impI)
      fix k g sr
      assume m: "(k, g) \<in> set (kg # groups)"
        and t: "sector_strength_threshold cfg \<le> int (length g)"
        and a: "analyze_sector_roles (score_weights cfg) g = Inr sr"
      have "in_sector k (longtou rs') = in_sector k (longtou rs) @ map (tag_sector k) (opt_list (sr_longtou sr))
          \<and> in_sector k (zhongjun rs') = in_sector k (zhongjun rs) @ map (tag_sector k) (opt_list (sr_zhongjun sr))"
      proof (cases "k = k0")
        case True
        then have "(k, g) \<notin> set groups" using k0 by force
        then have "g = g0" using m True by (simp add: kg)
        then have e: "sr = sr0" using a sr0 by simp
        have "in_sector k0 (longtou rs') = in_sector k0 (longtou ?rs1)"
          "in_sector k0 (zhongjun rs') = in_sector k0 (zhongjun ?rs1)"
          using inv k0 unfolding loop_inv_def by blast+
        then show ?thesis unfolding True e
          by (simp add: add_sector_roles_fields in_sector_append in_sector_tagged_same)
      next
        case False
        then have mg: "(k, g) \<in> set groups" using m by (simp add: kg)
        have "in_sector k (longtou rs') = in_sector k (longtou ?rs1) @ map (tag_sector k) (opt_list (sr_longtou sr))"
          "in_sector k (zhongjun rs') = in_sector k (zhongjun ?rs1) @ map (tag_sector k) (opt_list (sr_zhongjun sr))"
          using inv mg t a unfolding loop_inv_def by blast+
        then show ?thesis using False
          by (simp add: add_sector_roles_fields in_sector_append in_sector_tagged_other)
      qed
      then show "in_sector k (longtou rs') = in_sector k (longtou rs) @ map (tag_sector k) (opt_list (sr_longtou sr))"
        and "in_sector k (zhongjun rs') = in_sector k (zhongjun rs) @ map (tag_sector k) (opt_list (sr_zhongjun sr))"
        by blast+
    next
      fix k assume n: "k \<notin> fst ` set (kg # groups)"
      then have ne: "k0 \<noteq> k" and n': "k \<notin> fst ` set groups" by (auto simp: kg)
      have "in_sector k (longtou rs') = in_sector k (longtou ?rs1)"
          "in_sector k (zhongjun rs') = in_sector k (zhongjun ?rs1)"
        using inv n' unfolding loop_inv_def by blast+
      then show "in_sector k (longtou rs') = in_sector k (longtou rs)"
        and "in_sector k (zhongjun rs') = in_sector k (zhongjun rs)"
        using ne by (simp_all add: add_sector_roles_fields in_sector_append in_sector_tagged_other)
    qed
    then show ?thesis using step r by simp
  next
    case False
    let ?rs1 = "rs\<lparr>guancha := guancha rs @ map (tag_sector k0) g0\<rparr>"
    have step: "identify_loop cfg (kg # groups) rs = identify_loop cfg groups ?rs1"
      unfolding kg by (rule identify_loop_Cons_weak[OF False])
    from Cons.IH[OF d, of ?rs1] obtain rs' where
      r: "identify_loop cfg groups ?rs1 = Inr rs'" and inv: "loop_inv cfg groups ?rs1 rs'"
      by blast
    have "loop_inv cfg (kg # groups) rs rs'"
      unfolding loop_inv_def
    proof (intro conjI allI impI)
      fix k g sr
      assume m: "(k, g) \<in> set (kg # groups)"
        and t: "sector_strength_threshold cfg \<le> int (length g)"
        and a: "analyze_sector_roles (score_weights cfg) g = Inr sr"
      have mg: "(k, g) \<in> set groups" using m t False by (auto simp: kg)
      have "in_sector k (longtou rs') = in_sector k (longtou ?rs1) @ map (tag_sector k) (opt_list (sr_longtou sr))"
          "in_sector k (zhongjun rs') = in_sector k (zhongjun ?rs1) @ map (tag_sector k) (opt_list (sr_zhongjun sr))"
        using inv mg t a unfolding loop_inv_def by blast+
      then show "in_sector k (longtou rs') = in_sector k (longtou rs) @ map (tag_sector k) (opt_list (sr_longtou sr))"
        and "in_sector k (zhongjun rs') = in_sector k (zhongjun rs) @ map (tag_sector k) (opt_list (sr_zhongjun sr))"
        by simp_all
    next
      fix k assume n: "k \<notin> fst ` set (kg # groups)"
      then have n': "k \<notin> fst ` set groups" by (auto simp: kg)
      have "in_sector k (longtou rs') = in_sector k (longtou ?rs1)"
          "in_sector k (zhongjun rs') = in_sector k (zhongjun ?rs1)"
        using inv n' unfolding loop_inv_def by blast+
      then show "in_sector k (longtou rs') = in_sector k (longtou rs)"
        and "in_sector k (zhongjun rs') = in_sector k (zhongjun rs)"
        by simp_all
    qed
    then show ?thesis using step r by simp
  qed
qed

lemma filter_sort_role:
  assumes "filter P xs = [x]"
  shows "filter P (sort_role xs) = [x]"
proof -
  have "filter P (sort_key (\<lambda>x. - score_of x) xs) = sort_key (\<lambda>x. - score_of x) [x]"
    by (simp only: filter_sort assms)
  then show ?thesis using assms by (auto simp: sort_role_def sort_reverse_def)
qed

lemma group_by_sector_Nil: "group_by_sector h [] sd = Inr []"
  by (simp add: group_by_sector_def)

lemma stocks4_groups_fallback:
  "group_by_sector (constant_hash 2) stocks4 [] = Inr [(''yiyao'', stocks4)]"
  by (simp add: group_by_sector_def stocks4_def get_stock_sector_from_data_def
      get_stock_sector_def sectors_by_prefix_def bind_err_def plain_stock_def constant_hash_def)

text \<open>
  Claim C10. With a threshold of at least 2, every sector that enters the role analysis
  contributes exactly one leader and exactly one core to the result: the leader is the
  best-scored stock with a streak of at least 2 days when the sector has one and the
  overall best-scored stock otherwise, and the core is always there.
\<close>

theorem leader_and_core_assigned:
  assumes "2 \<le> sector_strength_threshold cfg"
    and "group_by_sector h stock_list sector_data = Inr groups"
    and "(k, g) \<in> set groups"
    and "sector_strength_threshold cfg \<le> int (length g)"
  shows "\<exists>rs lt c.
           identify_roles cfg h stock_list sector_data = Inr rs
           \<and> filter (\<lambda>s. sector s = Some k) (longtou rs) = [tag_sector k lt]
           \<and> filter (\<lambda>s. sector s = Some k) (zhongjun rs) = [tag_sector k c]
           \<and> lt \<in> set (score_stocks (score_weights cfg) g)
           \<and> c \<in> set (score_stocks (score_weights cfg) g)
           \<and> (if \<exists>s \<in> set g. 2 \<le> days_of s
               then 2 \<le> days_of lt
                    \<and> (\<forall>x \<in> set (score_stocks (score_weights cfg) g).
                          2 \<le> days_of x \<longrightarrow> score_of x \<le> score_of lt)
               else \<forall>x \<in> set (score_stocks (score_weights cfg) g). score_of x \<le> score_of lt)"
proof -
  let ?w = "score_weights cfg"
  have len: "2 \<le> length g" using assms(1,4) by linarith
  then have gne: "g \<noteq> []" by auto
  have sne: "stock_list \<noteq> []" using assms(2,3) group_by_sector_Nil[of h sector_data] by auto
  from analyze_sector_roles_shape[OF len, of ?w] obtain lt c bz where
    a: "analyze_sector_roles ?w g = Inr \<lparr>sr_longtou = Some lt, sr_zhongjun = Some c, sr_buzhang = bz\<rparr>"
    and l: "select_longtou (score_stocks ?w g) = Inr (Some lt)"
    and z: "select_zhongjun (score_stocks ?w g) (Some lt) = Inr (Some c)"
    by blast
  from identify_loop_inv[OF group_by_sector_distinct[OF assms(2)], of cfg empty_roles]
  obtain rs' where r: "identify_loop cfg groups empty_roles = Inr rs'"
    and inv: "loop_inv cfg groups empty_roles rs'" by blast
  from inv assms(3,4) a have
    f1: "in_sector k (longtou rs') = [tag_sector k lt]" and
    f2: "in_sector k (zhongjun rs') = [tag_sector k c]"
    unfolding loop_inv_def by (auto simp: empty_roles_def in_sector_def opt_list_def)
  let ?rs = "rs'\<lparr>longtou := sort_role (longtou rs'), zhongjun := sort_role (zhongjun rs'),
                 buzhang := sort_role (buzhang rs')\<rparr>"
  have i: "identify_roles cfg h stock_list sector_data = Inr ?rs"
    using sne assms(2) r by (simp add: identify_roles_def bind_err_def)
  have g1: "filter (\<lambda>s. sector s = Some k) (longtou ?rs) = [tag_sector k lt]"
    using filter_sort_role[OF f1[unfolded in_sector_def]] by simp
  have g2: "filter (\<lambda>s. sector s = Some k) (zhongjun ?rs) = [tag_sector k c]"
    using filter_sort_role[OF f2[unfolded in_sector_def]] by simp
  from core_selected[OF z len] have cin: "c \<in> set (score_stocks ?w g)"
    unfolding Let_def using in_set_takeD by fast
  from leader_selected[OF l gne] i g1 g2 cin show ?thesis by blast
qed

theorem leader_and_core_assigned_witness:
  "2 \<le> sector_strength_threshold default_config
   \<and> group_by_sector (constant_hash 2) stocks4 [] = Inr [(''yiyao'', stocks4)]
   \<and> (''yiyao'', stocks4) \<in> set [(''yiyao'', stocks4)]
   \<and> sector_strength_threshold default_config \<le> int (length stocks4)
   \<and> (\<exists>rs lt c.
           identify_roles default_config (constant_hash 2) stocks4 [] = Inr rs
           \<and> filter (\<lambda>s. sector s = Some ''yiyao'') (longtou rs) = [tag_sector ''yiyao'' lt]
           \<and> filter (\<lambda>s. sector s = Some ''yiyao'') (zhongjun rs) = [tag_sector ''yiyao'' c]
           \<and> lt \<in> set (score_stocks (score_weights default_config) stocks4)
           \<and> c \<in> set (score_stocks (score_weights default_config) stocks4)
           \<and> (if \<exists>s \<in> set stocks4. 2 \<le> days_of s
               then 2 \<le> days_of lt
                    \<and> (\<forall>x \<in> set (score_stocks (score_weights default_config) stocks4).
                          2 \<le> days_of x \<longrightarrow> score_of x \<le> score_of lt)
               else \<forall>x \<in> set (score_stocks (score_weights default_config) stocks4).
                      score_of x \<le> score_of lt))"
proof -
  have h1: "2 \<le> sector_strength_threshold default_config" by (simp add: default_config_def)
  have h3: "(''yiyao'', stocks4) \<in> set [(''yiyao'', stocks4)]" by simp
  have h4: "sector_strength_threshold default_config \<le> int (length stocks4)"
    by (simp add: default_config_def stocks4_def)
  show ?thesis
    using h1 stocks4_groups_fallback h3 h4
      leader_and_core_assigned[OF h1 stocks4_groups_fallback h3 h4]
    by (intro conjI)
qed

section \<open>The role lists of a four-stock sector\<close>

lemma roster4_analysed:
  "stocks (analyze_limit_up thr roster4 Map.empty) = stocks4"
  by (simp add: analyze_limit_up_def roster4_def stocks4_def plain_row_def plain_stock_def
      find_continuous_limit_up_def analyze_single_stock_def mark_continuous_def Let_def)

lemma roster4_groups:
  "group_stocks_by_sector (constant_hash 2) roster4 = Inr [(''yiyao'', roster4)]"
  by (simp add: group_stocks_by_sector_def roster4_def assign_stock_sector_def
      sector_catalogue_def bind_err_def constant_hash_def)

lemma roster4_sorted: "sort_reverse (\<lambda>x. real (row_days x)) roster4 = roster4"
  by (simp add: sort_reverse_def roster4_def row_days_def plain_row_def)

lemma roster4_core:
  "map cs_code (identify_core_stocks roster4) = [''300001'', ''300002'', ''300003'']"
  unfolding identify_core_stocks_def Let_def roster4_sorted
  by (simp add: roster4_def plain_row_def)

lemma roster4_sectors:
  "\<exists>info. analyze_sectors (constant_hash 2) roster4 = Inr [(''yiyao'', info)]
     \<and> map cs_code (core_stocks info) = [''300001'', ''300002'', ''300003'']"
proof -
  have ne: "roster4 \<noteq> []" by (simp add: roster4_def)
  have l: "2 \<le> length roster4" by (simp add: roster4_def)
  show ?thesis using ne l roster4_core
    by (simp add: analyze_sectors_def roster4_groups bind_err_def sort_reverse_def
        analyze_single_sector_def Let_def)
qed

lemma stocks4_groups:
  assumes "map cs_code (core_stocks info) = [''300001'', ''300002'', ''300003'']"
  shows "group_by_sector (constant_hash 2) stocks4 [(''yiyao'', info)]
           = Inr [(''yiyao'', stocks4)]"
  using assms
  by (simp add: group_by_sector_def stocks4_def get_stock_sector_from_data_def
      get_stock_sector_def sectors_by_prefix_def bind_err_def plain_stock_def constant_hash_def)

lemma plain_scores:
  "calculate_dragon_score default_weights (plain_stock c 900000000 None) = 41"
  "calculate_dragon_score default_weights (plain_stock c 600000000 None) = 41"
  "calculate_dragon_score default_weights (plain_stock c 300000000 None) = 38"
  "calculate_dragon_score default_weights (plain_stock c 100000000 None) = 35"
  by (simp_all add: calculate_dragon_score_def default_weights_def plain_stock_def days_of_def
      amount_score_def technical_score_def no_features_def py_round_def Let_def)

lemma stocks4_scored: "score_stocks default_weights stocks4 = scored4"
  by (simp add: score_stocks_def stocks4_def plain_scores sort_reverse_def scored4_def
      scored_stock_def score_of_def)

lemma stocks4_roles:
  "analyze_sector_roles default_weights stocks4 =
     Inr \<lparr>sr_longtou = Some (scored_stock ''300001'' 900000000 41),
          sr_zhongjun = Some (scored_stock ''300002'' 600000000 41),
          sr_buzhang = None\<rparr>"
proof -
  have l: "select_longtou scored4 = Inr (Some (scored_stock ''300001'' 900000000 41))"
    by (simp add: select_longtou_def scored4_def scored_stock_def plain_stock_def days_of_def)
  have z: "select_zhongjun scored4 (Some (scored_stock ''300001'' 900000000 41))
             = Inr (Some (scored_stock ''300002'' 600000000 41))"
    by (simp add: select_zhongjun_def scored4_def scored_stock_def plain_stock_def py_max_def
        bind_err_def)
  have b: "select_buzhang scored4 (Some (scored_stock ''300001'' 900000000 41))
             (Some (scored_stock ''300002'' 600000000 41)) = Inr None"
    by (simp add: select_buzhang_def scored4_def scored_stock_def plain_stock_def days_of_def
        no_features_def tail_def)
  have n: "\<not> length stocks4 < 2" by (simp add: stocks4_def)
  show ?thesis using n by (simp add: analyze_sector_roles_def stocks4_scored l z b bind_err_def)
qed

lemma stocks4_loop:
  "identify_loop default_config [(''yiyao'', stocks4)] empty_roles
     = Inr \<lparr>longtou = [tag_sector ''yiyao'' (scored_stock ''300001'' 900000000 41)],
            zhongjun = [tag_sector ''yiyao'' (scored_stock ''300002'' 600000000 41)],
            buzhang = [], guancha = []\<rparr>"
proof -
  have t: "sector_strength_threshold default_config \<le> int (length stocks4)"
    by (simp add: default_config_def stocks4_def)
  have w: "score_weights default_config = default_weights" by (simp add: default_config_def)
  show ?thesis using t
    by (simp add: w stocks4_roles bind_err_def add_sector_roles_def empty_roles_def opt_list_def)
qed

lemma stocks4_identified:
  assumes "map cs_code (core_stocks info) = [''300001'', ''300002'', ''300003'']"
  shows "identify_roles default_config (constant_hash 2) stocks4 [(''yiyao'', info)]
           = Inr \<lparr>longtou = [tag_sector ''yiyao'' (scored_stock ''300001'' 900000000 41)],
                  zhongjun = [tag_sector ''yiyao'' (scored_stock ''300002'' 600000000 41)],
                  buzhang = [], guancha = []\<rparr>"
proof -
  have ne: "stocks4 \<noteq> []" by (simp add: stocks4_def)
  show ?thesis using ne
    by (simp add: identify_roles_def stocks4_groups[OF assms] stocks4_loop bind_err_def
        sort_role_def sort_reverse_def del: identify_loop.simps)
qed

text \<open>In a sector of two stocks, which enters the role analysis under a threshold of 2,
  the stock of higher score and larger amount is both the leader and the core.\<close>

lemma two_stock_sector_core_is_leader:
  "analyze_sector_roles default_weights stocks2 =
     Inr \<lparr>sr_longtou = Some (scored_stock ''300001'' 900000000 41),
          sr_zhongjun = Some (scored_stock ''300001'' 900000000 41),
          sr_buzhang = None\<rparr>"
proof -
  let ?sc = "[scored_stock ''300001'' 900000000 41, scored_stock ''300003'' 300000000 38]"
  have s: "score_stocks default_weights stocks2 = ?sc"
    by (simp add: score_stocks_def stocks2_def plain_scores sort_reverse_def
      scored_stock_def score_of_def)
  have l: "select_longtou ?sc = Inr (Some (scored_stock ''300001'' 900000000 41))"
    by (simp add: select_longtou_def scored_stock_def plain_stock_def days_of_def)
  have z: "select_zhongjun ?sc (Some (scored_stock ''300001'' 900000000 41))
             = Inr (Some (scored_stock ''300001'' 900000000 41))"
    by (simp add: select_zhongjun_def scored_stock_def plain_stock_def py_max_def bind_err_def)
  have b: "select_buzhang ?sc (Some (scored_stock ''300001'' 900000000 41))
             (Some (scored_stock ''300001'' 900000000 41)) = Inr None"
    by (simp add: select_buzhang_def)
  have n: "\<not> length stocks2 < 2" by (simp add: stocks2_def)
  show ?thesis
    by (simp only: analyze_sector_roles_def n if_False Let_def s l z b bind_err_def sum.case)
qed

text \<open>
  Claim C1 fails on the code. The roster holds four stocks; with a hash value of 2 for
  every code both analyzers put all four into the sector yiyao, which enters the role
  analysis under the default threshold of 3. The first stock becomes the leader and the
  second the core; the third and the fourth are in none of the four role lists, not even
  in the watch list, which stays empty.
\<close>

theorem unselected_stocks_dropped:
  "\<exists>sector_data rs.
     analyze_sectors (constant_hash 2) roster4 = Inr sector_data
     \<and> identify_roles default_config (constant_hash 2)
         (stocks (analyze_limit_up 9.8 roster4 Map.empty)) sector_data = Inr rs
     \<and> map code (longtou rs) = [''300001'']
     \<and> map code (zhongjun rs) = [''300002'']
     \<and> buzhang rs = []
     \<and> guancha rs = []
     \<and> ''300003'' \<in> set (map r_code roster4)
     \<and> ''300003'' \<notin> set (map code (longtou rs @ zhongjun rs @ buzhang rs @ guancha rs))"
proof -
  from roster4_sectors obtain info where
    s: "analyze_sectors (constant_hash 2) roster4 = Inr [(''yiyao'', info)]"
    and c: "map cs_code (core_stocks info) = [''300001'', ''300002'', ''300003'']" by auto
  have "map code [tag_sector ''yiyao'' (scored_stock ''300001'' 900000000 41)] = [''300001'']"
    "map code [tag_sector ''yiyao'' (scored_stock ''300002'' 600000000 41)] = [''300002'']"
    by (simp_all add: tag_sector_def scored_stock_def plain_stock_def)
  moreover have "''300003'' \<in> set (map r_code roster4)"
    by (simp add: roster4_def plain_row_def)
  ultimately show ?thesis using s stocks4_identified[OF c] unfolding roster4_analysed by simp
qed

section \<open>Runs with different string hashes\<close>

lemma assign_stock_sector_cong:
  "h1 c = h2 c \<Longrightarrow> assign_stock_sector h1 c ks = assign_stock_sector h2 c ks"
  by (simp add: assign_stock_sector_def)

lemma get_stock_sector_cong:
  "h1 c = h2 c \<Longrightarrow> get_stock_sector h1 c = get_stock_sector h2 c"
  by (cases c) (simp_all add: get_stock_sector_def split: option.splits)

lemma get_stock_sector_from_data_cong:
  "h1 c = h2 c \<Longrightarrow> get_stock_sector_from_data h1 c sd = get_stock_sector_from_data h2 c sd"
  by (cases "find_sector_in_data c sd")
    (simp_all add: get_stock_sector_from_data_def get_stock_sector_cong[of h1 c h2])

lemma group_stocks_loop_cong:
  "\<forall>r \<in> set rs. h1 (r_code r) = h2 (r_code r)
     \<Longrightarrow> group_stocks_loop h1 rs g = group_stocks_loop h2 rs g"
proof (induction rs arbitrary: g)
  case Nil
  then show ?case by simp
next
  case (Cons r rs)
  have e: "assign_stock_sector h1 (r_code r) sector_catalogue
           = assign_stock_sector h2 (r_code r) sector_catalogue"
    by (rule assign_stock_sector_cong) (use Cons.prems in simp)
  have "\<forall>r \<in> set rs. h1 (r_code r) = h2 (r_code r)" using Cons.prems by simp
  then have ih: "\<And>g. group_stocks_loop h1 rs g = group_stocks_loop h2 rs g"
    by (rule Cons.IH)
  show ?case by (simp only: group_stocks_loop.simps e ih)
qed

lemma analyze_sectors_cong:
  "\<forall>r \<in> set rs. h1 (r_code r) = h2 (r_code r)
     \<Longrightarrow> analyze_sectors h1 rs = analyze_sectors h2 rs"
  using group_stocks_loop_cong[of rs h1 h2 "[]"]
  by (simp add: analyze_sectors_def group_stocks_by_sector_def)

lemma group_by_sector_loop_cong:
  "\<forall>s \<in> set ss. h1 (code s) = h2 (code s)
     \<Longrightarrow> group_by_sector_loop h1 sd ss g = group_by_sector_loop h2 sd ss g"
proof (induction ss arbitrary: g)
  case Nil
  then show ?case by simp
next
  case (Cons s ss)
  have e: "get_stock_sector_from_data h1 (code s) sd = get_stock_sector_from_data h2 (code s) sd"
    by (rule get_stock_sector_from_data_cong) (use Cons.prems in simp)
  have "\<forall>s \<in> set ss. h1 (code s) = h2 (code s)" using Cons.prems by simp
  then have ih: "\<And>g. group_by_sector_loop h1 sd ss g = group_by_sector_loop h2 sd ss g"
    by (rule Cons.IH)
  show ?case by (simp only: group_by_sector_loop.simps e ih)
qed

lemma identify_roles_cong:
  "\<forall>s \<in> set ss. h1 (code s) = h2 (code s)
     \<Longrightarrow> identify_roles cfg h1 ss sd = identify_roles cfg h2 ss sd"
  using group_by_sector_loop_cong[of ss h1 h2 sd "[]"]
  by (simp add: identify_roles_def group_by_sector_def)

lemma analysed_codes:
  "map code (stocks (analyze_limit_up thr rs hist)) = map r_code rs"
  by (simp add: analyze_limit_up_def empty_analysis_result_def find_continuous_limit_up_def
      Let_def mark_code analysed_code comp_def)

lemma generate_strategy_now:
  "generate_strategy cfg now2 a rs = (generate_strategy cfg now1 a rs)\<lparr>generated_at := now2\<rparr>"
  by (simp add: generate_strategy_def Let_def)

lemma other_hash_agrees: "\<forall>r \<in> set roster4. constant_hash 2 (r_code r) = other_hash (r_code r)"
  by (simp add: roster4_def plain_row_def constant_hash_def other_hash_def)

text \<open>
  Claim C3, amended. Two runs on the same roster, histories and configuration produce the
  same report apart from the generation timestamp, and give every stock of the roster the
  same sector name, provided the string hash of the two interpreter processes gives the
  same value for every code of the roster.
\<close>

theorem runs_agree_under_equal_hash:
  assumes "\<forall>r \<in> set roster. h1 (r_code r) = h2 (r_code r)"
  shows "pipeline cfg h2 now2 roster hist
           = map_sum id (\<lambda>r. r\<lparr>generated_at := now2\<rparr>) (pipeline cfg h1 now1 roster hist)
         \<and> (\<forall>r \<in> set roster.
               assign_stock_sector h1 (r_code r) sector_catalogue
                 = assign_stock_sector h2 (r_code r) sector_catalogue
               \<and> (\<forall>sector_data. get_stock_sector_from_data h1 (r_code r) sector_data
                     = get_stock_sector_from_data h2 (r_code r) sector_data))"
proof -
  let ?a = "analyze_limit_up (limit_threshold cfg) roster hist"
  have s: "analyze_sectors h1 roster = analyze_sectors h2 roster"
    using assms by (rule analyze_sectors_cong)
  have "\<forall>c \<in> set (map code (stocks ?a)). h1 c = h2 c"
    unfolding analysed_codes using assms by simp
  then have c: "\<forall>s \<in> set (stocks ?a). h1 (code s) = h2 (code s)" by simp
  have i: "\<And>sd. identify_roles cfg h1 (stocks ?a) sd = identify_roles cfg h2 (stocks ?a) sd"
    using c by (rule identify_roles_cong)
  have p: "pipeline cfg h2 now2 roster hist
           = map_sum id (\<lambda>r. r\<lparr>generated_at := now2\<rparr>) (pipeline cfg h1 now1 roster hist)"
  proof (cases "analyze_sectors h2 roster")
    case (Inl e)
    then show ?thesis by (simp add: pipeline_def Let_def s bind_err_def)
  next
    case (Inr sd)
    show ?thesis
    proof (cases "identify_roles cfg h2 (stocks ?a) sd")
      case (Inl e)
      then show ?thesis using Inr by (simp add: pipeline_def Let_def s i bind_err_def)
    next
      case rs: (Inr rs)
      show ?thesis using Inr rs generate_strategy_now[of cfg now2 ?a rs now1]
        by (simp add: pipeline_def Let_def s i bind_err_def)
    qed
  qed
  have q: "\<forall>r \<in> set roster.
               assign_stock_sector h1 (r_code r) sector_catalogue
                 = assign_stock_sector h2 (r_code r) sector_catalogue
               \<and> (\<forall>sector_data. get_stock_sector_from_data h1 (r_code r) sector_data
                     = get_stock_sector_from_data h2 (r_code r) sector_data)"
    using assms assign_stock_sector_cong[of h1 _ h2] get_stock_sector_from_data_cong[of h1 _ h2]
    by blast
  show ?thesis using p q by (rule conjI)
qed

theorem runs_agree_under_equal_hash_witness:
  "pipeline default_config other_hash ''2026-01-02 09:00:00'' roster4 Map.empty
     = map_sum id (\<lambda>r. r\<lparr>generated_at := ''2026-01-02 09:00:00''\<rparr>)
         (pipeline default_config (constant_hash 2) ''2026-01-01 09:00:00'' roster4 Map.empty)"
  using runs_agree_under_equal_hash[OF other_hash_agrees, of default_config
      "''2026-01-02 09:00:00''" Map.empty "''2026-01-01 09:00:00''"]
  by (rule conjunct1)

lemma pipeline_constant_hash:
  "\<exists>r. pipeline default_config (constant_hash 2) now roster4 Map.empty = Inr r
       \<and> map it_code (stock_strategies r) = [''300001'', ''300002'']"
proof -
  from roster4_sectors obtain info where
    s: "analyze_sectors (constant_hash 2) roster4 = Inr [(''yiyao'', info)]"
    and c: "map cs_code (core_stocks info) = [''300001'', ''300002'', ''300003'']" by auto
  show ?thesis
    unfolding pipeline_def Let_def roster4_analysed s
    by (simp add: bind_err_def stocks4_identified[OF c] generate_strategy_def Let_def
        generate_stock_strategies_def dragon_item_def middle_item_def tag_sector_def
        scored_stock_def plain_stock_def)
qed

lemma split_groups:
  "group_stocks_by_sector split_hash roster4 = Inr [(''keji'', roster_keji), (''yiyao'', roster_yiyao)]"
  by (simp add: group_stocks_by_sector_def roster4_def assign_stock_sector_def
      sector_catalogue_def bind_err_def split_hash_def roster_keji_def roster_yiyao_def
      plain_row_def)

lemma split_strengths:
  "calculate_sector_strength roster_keji = 35" "calculate_sector_strength roster_yiyao = 25"
  by (simp_all add: calculate_sector_strength_def roster_keji_def roster_yiyao_def plain_row_def
      row_days_def py_round_def Let_def)

lemma split_core:
  "map cs_code (identify_core_stocks roster_keji) = [''300001'', ''300002'']"
  "map cs_code (identify_core_stocks roster_yiyao) = [''300003'', ''300004'']"
  by (simp_all add: identify_core_stocks_def Let_def roster_keji_def roster_yiyao_def plain_row_def
      sort_reverse_def row_days_def)

lemma split_sectors:
  "\<exists>ik iy. analyze_sectors split_hash roster4 = Inr [(''keji'', ik), (''yiyao'', iy)]
     \<and> map cs_code (core_stocks ik) = [''300001'', ''300002'']
     \<and> map cs_code (core_stocks iy) = [''300003'', ''300004'']"
proof -
  have ne: "roster4 \<noteq> []" by (simp add: roster4_def)
  have l: "2 \<le> length roster_keji" "2 \<le> length roster_yiyao"
    by (simp_all add: roster_keji_def roster_yiyao_def)
  show ?thesis using ne l split_core
    by (simp add: analyze_sectors_def split_groups bind_err_def sort_reverse_def
        analyze_single_sector_def Let_def split_strengths)
qed

lemma split_identified:
  assumes "map cs_code (core_stocks ik) = [''300001'', ''300002'']"
    and "map cs_code (core_stocks iy) = [''300003'', ''300004'']"
  shows "\<exists>rs. identify_roles default_config split_hash stocks4 [(''keji'', ik), (''yiyao'', iy)] = Inr rs
           \<and> longtou rs = [] \<and> zhongjun rs = [] \<and> buzhang rs = []
           \<and> map code (guancha rs) = [''300001'', ''300002'', ''300003'', ''300004'']"
  using assms
  by (simp add: identify_roles_def group_by_sector_def stocks4_def get_stock_sector_from_data_def
      bind_err_def plain_stock_def default_config_def empty_roles_def sort_role_def tag_sector_def)

lemma pipeline_split_hash:
  "\<exists>r. pipeline default_config split_hash now roster4 Map.empty = Inr r
       \<and> stock_strategies r = []"
proof -
  from split_sectors obtain ik iy where
    s: "analyze_sectors split_hash roster4 = Inr [(''keji'', ik), (''yiyao'', iy)]"
    and c: "map cs_code (core_stocks ik) = [''300001'', ''300002'']"
       "map cs_code (core_stocks iy) = [''300003'', ''300004'']" by auto
  from split_identified[OF c] obtain rs where
    i: "identify_roles default_config split_hash stocks4 [(''keji'', ik), (''yiyao'', iy)] = Inr rs"
    and e: "longtou rs = []" "zhongjun rs = []" "buzhang rs = []" by auto
  show ?thesis
    unfolding pipeline_def Let_def roster4_analysed s
    by (simp add: bind_err_def i e generate_strategy_def Let_def generate_stock_strategies_def)
qed

text \<open>
  Claim C3 as stated fails: Python salts the hash of a string per process, and two runs
  whose hashes differ on the codes of the roster group the stocks differently. With the
  hash 2 for every code the four stocks form one sector with a leader and a core; with a
  hash that is 0 on the first two codes they form two sectors below the threshold, no
  stock gets a role, and the report has no stock strategy.
\<close>

theorem runs_differ_counterexample:
  "pipeline default_config (constant_hash 2) ''2026-01-01 09:00:00'' roster4 Map.empty
     \<noteq> pipeline default_config split_hash ''2026-01-01 09:00:00'' roster4 Map.empty
   \<and> assign_stock_sector (constant_hash 2) ''300001'' sector_catalogue
     \<noteq> assign_stock_sector split_hash ''300001'' sector_catalogue"
proof -
  obtain r1 where r1: "pipeline default_config (constant_hash 2) ''2026-01-01 09:00:00'' roster4 Map.empty = Inr r1"
    and s1: "map it_code (stock_strategies r1) = [''300001'', ''300002'']"
    using pipeline_constant_hash[of "''2026-01-01 09:00:00''"] by auto
  obtain r2 where r2: "pipeline default_config split_hash ''2026-01-01 09:00:00'' roster4 Map.empty = Inr r2"
    and s2: "stock_strategies r2 = []"
    using pipeline_split_hash[of "''2026-01-01 09:00:00''"] by auto
  have "r1 \<noteq> r2" using s1 s2 by auto
  then have a: "pipeline default_config (constant_hash 2) ''2026-01-01 09:00:00'' roster4 Map.empty
     \<noteq> pipeline default_config split_hash ''2026-01-01 09:00:00'' roster4 Map.empty"
    unfolding r1 r2 by simp
  have b: "assign_stock_sector (constant_hash 2) ''300001'' sector_catalogue
     \<noteq> assign_stock_sector split_hash ''300001'' sector_catalogue"
    by (simp add: assign_stock_sector_def sector_catalogue_def constant_hash_def split_hash_def)
  show ?thesis using a b by (rule conjI)
qed

section \<open>The empty roster\<close>

lemma run_empty_roster:
  "run cfg h now [] historical_data = Inr (generate_empty_report now)"
  by (simp add: run_def)

text \<open>
  Claim C8. On an empty roster the pipeline of analysis, role identification and strategy
  generation raises nothing and returns a report with a total count of 0, the sentiment
  bingdian (frozen), the success rate 0 percent, no themes, no stock strategies, and the
  low-sentiment warning among its risk warnings. So does \<open>run\<close>, which returns the
  empty report of \<open>main.py\<close> instead, with a low-sentiment warning of its own.
\<close>

theorem empty_roster_report:
  "(\<exists>r. pipeline cfg h now [] historical_data = Inr r
        \<and> ms_total_count (market_overview r) = 0
        \<and> ms_sentiment (market_overview r) = ''bingdian''
        \<and> ms_success_rate (market_overview r) = ''0%''
        \<and> main_themes r = []
        \<and> stock_strategies r = []
        \<and> ''zhangting jiashu jiaoshao, shichang qingxu dimi, zhuyi cangwei kongzhi''
             \<in> set (risk_warnings r))
   \<and> (\<exists>r. run cfg h now [] historical_data = Inr r
        \<and> ms_total_count (market_overview r) = 0
        \<and> ms_sentiment (market_overview r) = ''bingdian''
        \<and> ms_success_rate (market_overview r) = ''0%''
        \<and> main_themes r = []
        \<and> stock_strategies r = []
        \<and> ''dangri wu zhangting gupiao, shichang jidu dimi'' \<in> set (risk_warnings r))"
proof -
  have a: "\<exists>r. pipeline cfg h now [] historical_data = Inr r
        \<and> ms_total_count (market_overview r) = 0
        \<and> ms_sentiment (market_overview r) = ''bingdian''
        \<and> ms_success_rate (market_overview r) = ''0%''
        \<and> main_themes r = []
        \<and> stock_strategies r = []
        \<and> ''zhangting jiashu jiaoshao, shichang qingxu dimi, zhuyi cangwei kongzhi''
             \<in> set (risk_warnings r)"
    by (simp add: pipeline_def analyze_limit_up_def empty_analysis_result_def analyze_sectors_def
        identify_roles_def bind_err_def empty_roles_def generate_strategy_def Let_def
        generate_market_summary_def assess_market_sentiment_def calculate_success_rate_def
        identify_main_themes_def collect_sector_stats_def sort_reverse_def
        generate_stock_strategies_def generate_risk_warnings_def get_max_continuous_days_def)
  have b: "\<exists>r. run cfg h now [] historical_data = Inr r
        \<and> ms_total_count (market_overview r) = 0
        \<and> ms_sentiment (market_overview r) = ''bingdian''
        \<and> ms_success_rate (market_overview r) = ''0%''
        \<and> main_themes r = []
        \<and> stock_strategies r = []
        \<and> ''dangri wu zhangting gupiao, shichang jidu dimi'' \<in> set (risk_warnings r)"
    by (simp add: run_empty_roster generate_empty_report_def)
  show ?thesis using a b by (rule conjI)
qed

end
